theory Spec2Isabelle
  imports Complex_Main
begin

section \<open>ASL recognition backend: signal filter, feature extraction, matcher, sentence builder\<close>

text \<open>
  A shallow embedding of \<^verbatim>\<open>backend/main.py\<close>. Python floats are read as real numbers:
  every property below is about comparisons, counts and control flow, none about rounding.
  Wall-clock reads (\<^verbatim>\<open>time.time()\<close>) are explicit arguments. Mutated objects (the
  filter bank of the extractor, the sentence builder) are passed in and returned. A raised
  exception is a value of \<open>py_error\<close>.
\<close>

subsection \<open>Values received from the client\<close>

text \<open>
  A coordinate arrives from \<^verbatim>\<open>json.loads\<close>: a number, \<^verbatim>\<open>null\<close> or a string
  (JSON lists and objects behave as strings do here: arithmetic on them raises TypeError;
  JSON booleans behave as the numbers 0 and 1). A landmark is a JSON object (a dict from
  keys to coordinates) or any other JSON value, on which \<^verbatim>\<open>lm['x']\<close> raises TypeError.
\<close>

datatype coord = Num real | PyNone | PyStr string

datatype landmark = LmDict "string \<rightharpoonup> coord" | LmOther

datatype py_error = TypeError | ZeroDivisionError

subsection \<open>OneEuroFilter\<close>

record OneEuroFilter =
  t_prev :: real
  x_prev :: coord
  dx_prev :: real
  min_cutoff :: real
  beta :: real
  d_cutoff :: real

definition FILTER_MIN_CUTOFF :: real where
  "FILTER_MIN_CUTOFF = 3 / 2"

definition FILTER_BETA :: real where
  "FILTER_BETA = 8"

text \<open>\<^verbatim>\<open>OneEuroFilter(t, val, min_cutoff=self.fc_min, beta=self.beta)\<close>, the other arguments
  at their defaults \<^verbatim>\<open>dx0=0.0\<close> and \<^verbatim>\<open>d_cutoff=1.0\<close>.\<close>

definition new_filter :: "real \<Rightarrow> coord \<Rightarrow> OneEuroFilter" where
  "new_filter t0 x0 =
     \<lparr>t_prev = t0, x_prev = x0, dx_prev = 0,
      min_cutoff = FILTER_MIN_CUTOFF, beta = FILTER_BETA, d_cutoff = 1\<rparr>"

text \<open>\<^verbatim>\<open>r / (r + 1)\<close> raises ZeroDivisionError when the divisor is zero.\<close>

definition smoothing_factor :: "real \<Rightarrow> real \<Rightarrow> py_error + real" where
  "smoothing_factor t_e cutoff =
     (let r = 2 * pi * cutoff * t_e
      in if r + 1 = 0 then Inl ZeroDivisionError else Inr (r / (r + 1)))"

definition exponential_smoothing :: "real \<Rightarrow> real \<Rightarrow> real \<Rightarrow> real" where
  "exponential_smoothing a x xp = a * x + (1 - a) * xp"

text \<open>
  \<^verbatim>\<open>__call__\<close>: the result and the filter after the call. The guard on \<open>t_e\<close> comes
  first and returns the argument itself, whatever it is. Past the guard, \<open>a_d\<close> is computed
  before \<^verbatim>\<open>(x - self.x_prev) / t_e\<close>, which raises TypeError unless both operands are
  numbers. The three fields are assigned only after every computation has succeeded.
\<close>

definition filter_call ::
  "OneEuroFilter \<Rightarrow> real \<Rightarrow> coord \<Rightarrow> py_error + (coord \<times> OneEuroFilter)" where
  "filter_call f t x =
     (let t_e = t - t_prev f in
      if t_e \<le> 0 then Inr (x, f)
      else
        (case smoothing_factor t_e (d_cutoff f) of
           Inl e \<Rightarrow> Inl e
         | Inr a_d \<Rightarrow>
            (case (x, x_prev f) of
               (Num xv, Num xp) \<Rightarrow>
                 (let dx = (xv - xp) / t_e;
                      dx_hat = exponential_smoothing a_d dx (dx_prev f);
                      cutoff = min_cutoff f + beta f * \<bar>dx_hat\<bar>
                  in case smoothing_factor t_e cutoff of
                       Inl e \<Rightarrow> Inl e
                     | Inr a \<Rightarrow>
                        (let x_hat = exponential_smoothing a xv xp
                         in Inr (Num x_hat,
                                 f\<lparr>x_prev := Num x_hat, dx_prev := dx_hat, t_prev := t\<rparr>)))
             | _ \<Rightarrow> Inl TypeError)))"

subsection \<open>HandFeatureExtractor: the filter bank and smooth_landmarks\<close>

text \<open>\<^verbatim>\<open>self.filters\<close>: a dict from channel index to filter object.\<close>

type_synonym filters = "nat \<rightharpoonup> OneEuroFilter"

definition get_filter :: "filters \<Rightarrow> nat \<Rightarrow> real \<Rightarrow> coord \<Rightarrow> OneEuroFilter \<times> filters" where
  "get_filter fs idx t val =
     (case fs idx of
        None \<Rightarrow> (new_filter t val, fs(idx \<mapsto> new_filter t val))
      | Some f \<Rightarrow> (f, fs))"

text \<open>
  \<^verbatim>\<open>self._get_filter(idx, t, v)(t, v)\<close>: the filter object is mutated in place, so the bank
  holds the filter after the call. When the call raises, a filter created just before stays in
  the bank.
\<close>

definition apply_filter :: "filters \<Rightarrow> nat \<Rightarrow> real \<Rightarrow> coord \<Rightarrow> (py_error + coord) \<times> filters" where
  "apply_filter fs idx t v =
     (case get_filter fs idx t v of
        (f, fs') \<Rightarrow>
          (case filter_call f t v of
             Inl e \<Rightarrow> (Inl e, fs')
           | Inr (r, f') \<Rightarrow> (Inr r, fs'(idx \<mapsto> f'))))"

text \<open>\<^verbatim>\<open>lm.get(k)\<close> and \<^verbatim>\<open>lm.get(k, 0)\<close> on a dict.\<close>

definition dict_get :: "(string \<rightharpoonup> coord) \<Rightarrow> string \<Rightarrow> coord" where
  "dict_get d k = (case d k of None \<Rightarrow> PyNone | Some v \<Rightarrow> v)"

definition dict_get0 :: "(string \<rightharpoonup> coord) \<Rightarrow> string \<Rightarrow> coord" where
  "dict_get0 d k = (case d k of None \<Rightarrow> Num 0 | Some v \<Rightarrow> v)"

text \<open>
  The body of the \<^verbatim>\<open>try\<close> block of \<^verbatim>\<open>smooth_landmarks\<close>: the loop over
  \<^verbatim>\<open>enumerate(landmarks)\<close> from index \<open>i\<close>, with the rows appended so far. It returns the
  exception that stopped it (if any), the list \<^verbatim>\<open>smoothed\<close> and the filter bank as they are
  at that moment.
\<close>

fun smooth_loop ::
  "filters \<Rightarrow> real \<Rightarrow> nat \<Rightarrow> landmark list \<Rightarrow> coord list list
     \<Rightarrow> py_error option \<times> coord list list \<times> filters" where
  "smooth_loop fs t i [] smoothed = (None, smoothed, fs)"
| "smooth_loop fs t i (LmOther # lms) smoothed = (Some TypeError, smoothed, fs)"
| "smooth_loop fs t i (LmDict d # lms) smoothed =
     (let x = dict_get d ''x''; y = dict_get d ''y''; z = dict_get0 d ''z'' in
      case apply_filter fs (i * 3 + 0) t x of
        (Inl e, fs1) \<Rightarrow> (Some e, smoothed, fs1)
      | (Inr sx, fs1) \<Rightarrow>
          (case apply_filter fs1 (i * 3 + 1) t y of
             (Inl e, fs2) \<Rightarrow> (Some e, smoothed, fs2)
           | (Inr sy, fs2) \<Rightarrow>
               (case apply_filter fs2 (i * 3 + 2) t z of
                  (Inl e, fs3) \<Rightarrow> (Some e, smoothed, fs3)
                | (Inr sz, fs3) \<Rightarrow>
                    smooth_loop fs3 t (i + 1) lms (smoothed @ [[sx, sy, sz]]))))"

text \<open>
  The loop of the \<^verbatim>\<open>except\<close> block: it appends one raw row per landmark to the list it is
  given. On a landmark that is not a dict it raises, and the exception leaves
  \<^verbatim>\<open>smooth_landmarks\<close>.
\<close>

fun raw_loop :: "landmark list \<Rightarrow> coord list list \<Rightarrow> py_error + coord list list" where
  "raw_loop [] smoothed = Inr smoothed"
| "raw_loop (LmOther # lms) smoothed = Inl TypeError"
| "raw_loop (LmDict d # lms) smoothed =
     raw_loop lms (smoothed @ [[dict_get0 d ''x'', dict_get0 d ''y'', dict_get0 d ''z'']])"

text \<open>
  \<^verbatim>\<open>smooth_landmarks\<close> at wall-clock time \<open>t\<close>. The \<^verbatim>\<open>except\<close> block goes on with the
  list \<^verbatim>\<open>smoothed\<close> as the \<^verbatim>\<open>try\<close> block left it.
\<close>

definition smooth_landmarks ::
  "filters \<Rightarrow> real \<Rightarrow> landmark list \<Rightarrow> (py_error + coord list list) \<times> filters" where
  "smooth_landmarks fs t landmarks =
     (case smooth_loop fs t 0 landmarks [] of
        (None, smoothed, fs') \<Rightarrow> (Inr smoothed, fs')
      | (Some e, smoothed, fs') \<Rightarrow> (raw_loop landmarks smoothed, fs'))"

text \<open>The unfiltered coordinates of a frame: one row \<open>[x, y, z]\<close> per landmark.\<close>

definition raw_coordinates :: "landmark list \<Rightarrow> py_error + coord list list" where
  "raw_coordinates landmarks = raw_loop landmarks []"

subsection \<open>VectorUtils\<close>

type_synonym vec3 = "real \<times> real \<times> real"

definition vsub :: "vec3 \<Rightarrow> vec3 \<Rightarrow> vec3" where
  "vsub a b = (case a of (ax, ay, az) \<Rightarrow> case b of (bx, by, bz) \<Rightarrow> (ax - bx, ay - by, az - bz))"

definition vdot :: "vec3 \<Rightarrow> vec3 \<Rightarrow> real" where
  "vdot a b = (case a of (ax, ay, az) \<Rightarrow> case b of (bx, by, bz) \<Rightarrow> ax * bx + ay * by + az * bz)"

definition vcross :: "vec3 \<Rightarrow> vec3 \<Rightarrow> vec3" where
  "vcross a b =
     (case a of (ax, ay, az) \<Rightarrow> case b of (bx, by, bz) \<Rightarrow>
        (ay * bz - az * by, az * bx - ax * bz, ax * by - ay * bx))"

definition vnorm :: "vec3 \<Rightarrow> real" where
  "vnorm v = sqrt (vdot v v)"

definition get_vector :: "vec3 \<Rightarrow> vec3 \<Rightarrow> vec3" where
  "get_vector v1 v2 = vsub v2 v1"

definition normalize_vector :: "vec3 \<Rightarrow> vec3" where
  "normalize_vector v =
     (let n = vnorm v in
      if n = 0 then v else (case v of (x, y, z) \<Rightarrow> (x / n, y / n, z / n)))"

definition clip :: "real \<Rightarrow> real \<Rightarrow> real \<Rightarrow> real" where
  "clip a lo hi = min hi (max lo a)"

definition degrees :: "real \<Rightarrow> real" where
  "degrees r = r * 180 / pi"

definition calculate_angle :: "vec3 \<Rightarrow> vec3 \<Rightarrow> real" where
  "calculate_angle v1 v2 =
     (let v1_u = normalize_vector v1; v2_u = normalize_vector v2;
          dot_product = clip (vdot v1_u v2_u) (- 1) 1
      in degrees (arccos dot_product))"

subsection \<open>Domain models\<close>

datatype Finger = THUMB | INDEX | MIDDLE | RING | PINKY

datatype FingerState = FOLDED | CURLED | EXTENDED

datatype Orientation = UP | DOWN | LEFT | RIGHT | FORWARD | BACKWARD

text \<open>
  The two dicts of a HandState always hold all five fingers (\<^verbatim>\<open>process\<close> assigns each
  key), so they are total functions here.
\<close>

record HandState =
  fingers :: "Finger \<Rightarrow> FingerState"
  finger_angles :: "Finger \<Rightarrow> real"
  palm_orientation :: Orientation
  thumb_position :: string
  raw_landmarks :: "vec3 list"
  timestamp :: real

subsection \<open>HandFeatureExtractor.process\<close>

definition analyze_finger :: "vec3 \<Rightarrow> vec3 \<Rightarrow> vec3 \<Rightarrow> vec3 \<Rightarrow> vec3 \<Rightarrow> FingerState \<times> real" where
  "analyze_finger wrist mcp pip dip tip =
     (let v_mcp_pip = get_vector mcp pip;
          v_pip_dip = get_vector pip dip;
          v_dip_tip = get_vector dip tip;
          angle_pip = calculate_angle v_mcp_pip v_pip_dip;
          angle_dip = calculate_angle v_pip_dip v_dip_tip;
          total_bend = angle_pip + angle_dip;
          d_tip_wrist = vnorm (vsub tip wrist);
          d_mcp_wrist = vnorm (vsub mcp wrist)
      in (if total_bend > 160 then FOLDED
          else if total_bend > 90 \<or> d_tip_wrist < d_mcp_wrist then CURLED
          else EXTENDED,
          total_bend))"

definition thumb_state_of :: "vec3 \<Rightarrow> vec3 \<Rightarrow> vec3 \<Rightarrow> vec3 \<Rightarrow> vec3 \<Rightarrow> FingerState" where
  "thumb_state_of wrist thumb_mcp thumb_tip index_mcp pinky_mcp =
     (let v_thumb_tip_mcp = get_vector thumb_mcp thumb_tip;
          v_index_mcp_wrist = get_vector wrist index_mcp;
          thumb_state = (if calculate_angle v_thumb_tip_mcp v_index_mcp_wrist > 60
                         then FOLDED else EXTENDED)
      in if vnorm (vsub thumb_tip pinky_mcp) < 5 / 100 then FOLDED else thumb_state)"

text \<open>Step 5 of \<^verbatim>\<open>process\<close>: the orientation of a (normalised) palm normal.\<close>

definition orientation_of_normal :: "vec3 \<Rightarrow> Orientation" where
  "orientation_of_normal palm_normal =
     (case palm_normal of (nx, ny, nz) \<Rightarrow>
        (let abs_x = \<bar>nx\<bar>; abs_y = \<bar>ny\<bar>; abs_z = \<bar>nz\<bar> in
         if abs_z > abs_x \<and> abs_z > abs_y then (if nz < 0 then FORWARD else BACKWARD)
         else if abs_y > abs_x then (if ny < 0 then UP else DOWN)
         else (if nx < 0 then LEFT else RIGHT)))"

text \<open>
  Steps 2 to 5 of \<^verbatim>\<open>process\<close> on the coordinate array; \<open>now\<close> is the second read of the
  clock. Only rows 0 to 20 are read; the array has at least 21 rows wherever this is called.
\<close>

definition extract_features :: "vec3 list \<Rightarrow> real \<Rightarrow> HandState" where
  "extract_features coords now =
     (let wrist = coords ! 0;
          thumb_mcp = coords ! 2; thumb_tip = coords ! 4;
          index_mcp = coords ! 5; index_pip = coords ! 6;
          index_dip = coords ! 7; index_tip = coords ! 8;
          middle_mcp = coords ! 9; middle_pip = coords ! 10;
          middle_dip = coords ! 11; middle_tip = coords ! 12;
          ring_mcp = coords ! 13; ring_pip = coords ! 14;
          ring_dip = coords ! 15; ring_tip = coords ! 16;
          pinky_mcp = coords ! 17; pinky_pip = coords ! 18;
          pinky_dip = coords ! 19; pinky_tip = coords ! 20;
          a_index = analyze_finger wrist index_mcp index_pip index_dip index_tip;
          a_middle = analyze_finger wrist middle_mcp middle_pip middle_dip middle_tip;
          a_ring = analyze_finger wrist ring_mcp ring_pip ring_dip ring_tip;
          a_pinky = analyze_finger wrist pinky_mcp pinky_pip pinky_dip pinky_tip;
          thumb_state = thumb_state_of wrist thumb_mcp thumb_tip index_mcp pinky_mcp;
          v_w_i = get_vector wrist index_mcp;
          v_w_p = get_vector wrist pinky_mcp;
          palm_normal = normalize_vector (vcross v_w_i v_w_p)
      in \<lparr>fingers = (\<lambda>f. case f of THUMB \<Rightarrow> thumb_state | INDEX \<Rightarrow> fst a_index
                        | MIDDLE \<Rightarrow> fst a_middle | RING \<Rightarrow> fst a_ring | PINKY \<Rightarrow> fst a_pinky),
          finger_angles = (\<lambda>f. case f of THUMB \<Rightarrow> 0 | INDEX \<Rightarrow> snd a_index
                        | MIDDLE \<Rightarrow> snd a_middle | RING \<Rightarrow> snd a_ring | PINKY \<Rightarrow> snd a_pinky),
          palm_orientation = orientation_of_normal palm_normal,
          thumb_position = ''UNKNOWN'',
          raw_landmarks = coords,
          timestamp = now\<rparr>)"

text \<open>
  \<^verbatim>\<open>np.array(smoothed)\<close> followed by the vector arithmetic of \<^verbatim>\<open>process\<close>: on an array
  of numbers it computes. An array holding a coordinate that is not a number is modelled as
  making the arithmetic raise TypeError, outside every \<^verbatim>\<open>try\<close> of \<^verbatim>\<open>process\<close>; this
  is an assumption about numpy where the coordinate sits in a row that \<^verbatim>\<open>process\<close> never
  reads (rows 1 and 3, and rows from 21 on), and no property below uses that branch.
\<close>

fun row_numbers :: "coord list \<Rightarrow> vec3 option" where
  "row_numbers [Num x, Num y, Num z] = Some (x, y, z)"
| "row_numbers r = None"

fun to_array :: "coord list list \<Rightarrow> vec3 list option" where
  "to_array [] = Some []"
| "to_array (r # rs) =
     (case row_numbers r of
        None \<Rightarrow> None
      | Some v \<Rightarrow> (case to_array rs of None \<Rightarrow> None | Some vs \<Rightarrow> Some (v # vs)))"

text \<open>
  \<^verbatim>\<open>process\<close>: \<open>Inr None\<close> is the return value \<^verbatim>\<open>None\<close>, \<open>Inl e\<close> an exception that
  leaves the method. \<open>t\<close> is the clock read by \<^verbatim>\<open>smooth_landmarks\<close>, \<open>now\<close> the one
  read for the timestamp.
\<close>

definition process ::
  "filters \<Rightarrow> real \<Rightarrow> real \<Rightarrow> landmark list \<Rightarrow> (py_error + HandState option) \<times> filters" where
  "process fs t now raw =
     (if raw = [] \<or> length raw < 21 then (Inr None, fs)
      else
        (case smooth_landmarks fs t raw of
           (Inl e, fs') \<Rightarrow> (Inr None, fs')
         | (Inr coords, fs') \<Rightarrow>
             (case to_array coords of
                None \<Rightarrow> (Inl TypeError, fs')
              | Some arr \<Rightarrow> (Inr (Some (extract_features arr now)), fs'))))"

subsection \<open>ASLLexicon\<close>

text \<open>
  A sign definition is a dict with the optional keys \<^verbatim>\<open>desc\<close>, \<^verbatim>\<open>fingers\<close>,
  \<^verbatim>\<open>orientation\<close>, \<^verbatim>\<open>special\<close>, \<^verbatim>\<open>check\<close> and \<^verbatim>\<open>spread\<close>; an absent key is
  \<open>None\<close>. The \<^verbatim>\<open>fingers\<close> dict is kept as the list of its items in insertion order.
\<close>

record SignDefinition =
  def_desc :: "string option"
  def_fingers :: "(Finger \<times> FingerState list) list option"
  def_orientation :: "Orientation list option"
  def_special :: "string option"
  def_check :: "string option"
  def_spread :: "bool option"

definition sign_0 :: SignDefinition where
  "sign_0 = \<lparr>
     def_desc = Some ''Fingers curled, thumb and index touching'',
     def_fingers = Some
       [(INDEX, [FOLDED, CURLED]),
        (MIDDLE, [EXTENDED, CURLED]),
        (RING, [EXTENDED, CURLED]),
        (PINKY, [EXTENDED, CURLED])],
     def_orientation = None,
     def_special = Some ''THUMB_INDEX_TOUCH'',
     def_check = None,
     def_spread = None\<rparr>"

definition sign_1 :: SignDefinition where
  "sign_1 = \<lparr>
     def_desc = None,
     def_fingers = Some
       [(INDEX, [EXTENDED]),
        (MIDDLE, [FOLDED]),
        (RING, [FOLDED]),
        (PINKY, [FOLDED])],
     def_orientation = None,
     def_special = None,
     def_check = None,
     def_spread = None\<rparr>"

definition sign_2 :: SignDefinition where
  "sign_2 = \<lparr>
     def_desc = None,
     def_fingers = Some
       [(INDEX, [EXTENDED]),
        (MIDDLE, [EXTENDED]),
        (RING, [FOLDED]),
        (PINKY, [FOLDED])],
     def_orientation = None,
     def_special = None,
     def_check = None,
     def_spread = None\<rparr>"

definition sign_3 :: SignDefinition where
  "sign_3 = \<lparr>
     def_desc = None,
     def_fingers = Some
       [(THUMB, [EXTENDED]),
        (INDEX, [EXTENDED]),
        (MIDDLE, [EXTENDED]),
        (RING, [FOLDED]),
        (PINKY, [FOLDED])],
     def_orientation = None,
     def_special = None,
     def_check = None,
     def_spread = None\<rparr>"

definition sign_4 :: SignDefinition where
  "sign_4 = \<lparr>
     def_desc = None,
     def_fingers = Some
       [(THUMB, [FOLDED]),
        (INDEX, [EXTENDED]),
        (MIDDLE, [EXTENDED]),
        (RING, [EXTENDED]),
        (PINKY, [EXTENDED])],
     def_orientation = None,
     def_special = None,
     def_check = None,
     def_spread = None\<rparr>"

definition sign_5 :: SignDefinition where
  "sign_5 = \<lparr>
     def_desc = None,
     def_fingers = Some
       [(THUMB, [EXTENDED]),
        (INDEX, [EXTENDED]),
        (MIDDLE, [EXTENDED]),
        (RING, [EXTENDED]),
        (PINKY, [EXTENDED])],
     def_orientation = None,
     def_special = None,
     def_check = None,
     def_spread = Some True\<rparr>"

definition sign_A :: SignDefinition where
  "sign_A = \<lparr>
     def_desc = None,
     def_fingers = Some
       [(INDEX, [FOLDED]),
        (MIDDLE, [FOLDED]),
        (RING, [FOLDED]),
        (PINKY, [FOLDED]),
        (THUMB, [EXTENDED])],
     def_orientation = Some [UP],
     def_special = None,
     def_check = None,
     def_spread = None\<rparr>"

definition sign_B :: SignDefinition where
  "sign_B = \<lparr>
     def_desc = None,
     def_fingers = Some
       [(INDEX, [EXTENDED]),
        (MIDDLE, [EXTENDED]),
        (RING, [EXTENDED]),
        (PINKY, [EXTENDED]),
        (THUMB, [FOLDED, CURLED])],
     def_orientation = Some [UP],
     def_special = None,
     def_check = None,
     def_spread = None\<rparr>"

definition sign_C :: SignDefinition where
  "sign_C = \<lparr>
     def_desc = None,
     def_fingers = Some
       [(INDEX, [CURLED]),
        (MIDDLE, [CURLED]),
        (RING, [CURLED]),
        (PINKY, [CURLED]),
        (THUMB, [CURLED, EXTENDED])],
     def_orientation = Some [LEFT, RIGHT],
     def_special = None,
     def_check = None,
     def_spread = None\<rparr>"

definition sign_D :: SignDefinition where
  "sign_D = \<lparr>
     def_desc = None,
     def_fingers = Some
       [(INDEX, [EXTENDED]),
        (MIDDLE, [FOLDED, CURLED]),
        (RING, [FOLDED, CURLED]),
        (PINKY, [FOLDED, CURLED])],
     def_orientation = None,
     def_special = Some ''THUMB_MIDDLE_TOUCH'',
     def_check = None,
     def_spread = None\<rparr>"

definition sign_E :: SignDefinition where
  "sign_E = \<lparr>
     def_desc = None,
     def_fingers = Some
       [(INDEX, [FOLDED, CURLED]),
        (MIDDLE, [FOLDED, CURLED]),
        (RING, [FOLDED, CURLED]),
        (PINKY, [FOLDED, CURLED]),
        (THUMB, [FOLDED, CURLED])],
     def_orientation = None,
     def_special = None,
     def_check = Some ''NAILS_VISIBLE'',
     def_spread = None\<rparr>"

definition sign_F :: SignDefinition where
  "sign_F = \<lparr>
     def_desc = None,
     def_fingers = Some
       [(INDEX, [CURLED, FOLDED]),
        (MIDDLE, [EXTENDED]),
        (RING, [EXTENDED]),
        (PINKY, [EXTENDED])],
     def_orientation = None,
     def_special = Some ''THUMB_INDEX_TOUCH'',
     def_check = None,
     def_spread = None\<rparr>"

definition sign_G :: SignDefinition where
  "sign_G = \<lparr>
     def_desc = None,
     def_fingers = Some
       [(INDEX, [EXTENDED]),
        (MIDDLE, [FOLDED]),
        (RING, [FOLDED]),
        (PINKY, [FOLDED]),
        (THUMB, [EXTENDED])],
     def_orientation = Some [LEFT, RIGHT],
     def_special = None,
     def_check = None,
     def_spread = None\<rparr>"

definition sign_H :: SignDefinition where
  "sign_H = \<lparr>
     def_desc = None,
     def_fingers = Some
       [(INDEX, [EXTENDED]),
        (MIDDLE, [EXTENDED]),
        (RING, [FOLDED]),
        (PINKY, [FOLDED])],
     def_orientation = Some [LEFT, RIGHT],
     def_special = None,
     def_check = None,
     def_spread = None\<rparr>"

definition sign_I :: SignDefinition where
  "sign_I = \<lparr>
     def_desc = None,
     def_fingers = Some
       [(INDEX, [FOLDED]),
        (MIDDLE, [FOLDED]),
        (RING, [FOLDED]),
        (PINKY, [EXTENDED])],
     def_orientation = Some [UP],
     def_special = None,
     def_check = None,
     def_spread = None\<rparr>"

definition sign_K :: SignDefinition where
  "sign_K = \<lparr>
     def_desc = None,
     def_fingers = Some
       [(INDEX, [EXTENDED]),
        (MIDDLE, [EXTENDED]),
        (RING, [FOLDED]),
        (PINKY, [FOLDED]),
        (THUMB, [EXTENDED])],
     def_orientation = Some [UP],
     def_special = None,
     def_check = None,
     def_spread = None\<rparr>"

definition sign_L :: SignDefinition where
  "sign_L = \<lparr>
     def_desc = None,
     def_fingers = Some
       [(INDEX, [EXTENDED]),
        (MIDDLE, [FOLDED]),
        (RING, [FOLDED]),
        (PINKY, [FOLDED]),
        (THUMB, [EXTENDED])],
     def_orientation = Some [UP],
     def_special = None,
     def_check = None,
     def_spread = None\<rparr>"

definition sign_M :: SignDefinition where
  "sign_M = \<lparr>
     def_desc = None,
     def_fingers = Some
       [(INDEX, [FOLDED]),
        (MIDDLE, [FOLDED]),
        (RING, [FOLDED]),
        (PINKY, [FOLDED]),
        (THUMB, [FOLDED])],
     def_orientation = None,
     def_special = Some ''THUMB_UNDER_RING'',
     def_check = None,
     def_spread = None\<rparr>"

definition sign_N :: SignDefinition where
  "sign_N = \<lparr>
     def_desc = None,
     def_fingers = Some
       [(INDEX, [FOLDED]),
        (MIDDLE, [FOLDED]),
        (RING, [FOLDED]),
        (PINKY, [FOLDED])],
     def_orientation = None,
     def_special = Some ''THUMB_UNDER_MIDDLE'',
     def_check = None,
     def_spread = None\<rparr>"

definition sign_O :: SignDefinition where
  "sign_O = \<lparr>
     def_desc = None,
     def_fingers = Some
       [(INDEX, [CURLED]),
        (MIDDLE, [CURLED]),
        (RING, [CURLED]),
        (PINKY, [CURLED])],
     def_orientation = None,
     def_special = Some ''ALL_TIPS_TOUCH'',
     def_check = None,
     def_spread = None\<rparr>"

definition sign_P :: SignDefinition where
  "sign_P = \<lparr>
     def_desc = None,
     def_fingers = Some
       [(INDEX, [EXTENDED]),
        (MIDDLE, [EXTENDED]),
        (RING, [FOLDED]),
        (PINKY, [FOLDED]),
        (THUMB, [EXTENDED])],
     def_orientation = Some [DOWN],
     def_special = None,
     def_check = None,
     def_spread = None\<rparr>"

definition sign_Q :: SignDefinition where
  "sign_Q = \<lparr>
     def_desc = None,
     def_fingers = Some
       [(INDEX, [EXTENDED]),
        (MIDDLE, [FOLDED]),
        (RING, [FOLDED]),
        (PINKY, [FOLDED]),
        (THUMB, [EXTENDED])],
     def_orientation = Some [DOWN],
     def_special = None,
     def_check = None,
     def_spread = None\<rparr>"

definition sign_R :: SignDefinition where
  "sign_R = \<lparr>
     def_desc = None,
     def_fingers = Some
       [(INDEX, [EXTENDED]),
        (MIDDLE, [EXTENDED]),
        (RING, [FOLDED]),
        (PINKY, [FOLDED])],
     def_orientation = None,
     def_special = Some ''INDEX_MIDDLE_CROSS'',
     def_check = None,
     def_spread = None\<rparr>"

definition sign_S :: SignDefinition where
  "sign_S = \<lparr>
     def_desc = None,
     def_fingers = Some
       [(INDEX, [FOLDED]),
        (MIDDLE, [FOLDED]),
        (RING, [FOLDED]),
        (PINKY, [FOLDED]),
        (THUMB, [FOLDED])],
     def_orientation = Some [UP],
     def_special = None,
     def_check = None,
     def_spread = None\<rparr>"

definition sign_T :: SignDefinition where
  "sign_T = \<lparr>
     def_desc = None,
     def_fingers = Some
       [(INDEX, [FOLDED]),
        (MIDDLE, [FOLDED]),
        (RING, [FOLDED]),
        (PINKY, [FOLDED])],
     def_orientation = None,
     def_special = Some ''THUMB_UNDER_INDEX'',
     def_check = None,
     def_spread = None\<rparr>"

definition sign_U :: SignDefinition where
  "sign_U = \<lparr>
     def_desc = None,
     def_fingers = Some
       [(INDEX, [EXTENDED]),
        (MIDDLE, [EXTENDED]),
        (RING, [FOLDED]),
        (PINKY, [FOLDED])],
     def_orientation = None,
     def_special = None,
     def_check = Some ''INDEX_MIDDLE_TOGETHER'',
     def_spread = None\<rparr>"

definition sign_V :: SignDefinition where
  "sign_V = \<lparr>
     def_desc = None,
     def_fingers = Some
       [(INDEX, [EXTENDED]),
        (MIDDLE, [EXTENDED]),
        (RING, [FOLDED]),
        (PINKY, [FOLDED])],
     def_orientation = None,
     def_special = None,
     def_check = Some ''INDEX_MIDDLE_APART'',
     def_spread = None\<rparr>"

definition sign_W :: SignDefinition where
  "sign_W = \<lparr>
     def_desc = None,
     def_fingers = Some
       [(INDEX, [EXTENDED]),
        (MIDDLE, [EXTENDED]),
        (RING, [EXTENDED]),
        (PINKY, [FOLDED])],
     def_orientation = None,
     def_special = None,
     def_check = None,
     def_spread = None\<rparr>"

definition sign_X :: SignDefinition where
  "sign_X = \<lparr>
     def_desc = None,
     def_fingers = Some
       [(INDEX, [CURLED]),
        (MIDDLE, [FOLDED]),
        (RING, [FOLDED]),
        (PINKY, [FOLDED])],
     def_orientation = Some [UP, LEFT, RIGHT],
     def_special = None,
     def_check = None,
     def_spread = None\<rparr>"

definition sign_Y :: SignDefinition where
  "sign_Y = \<lparr>
     def_desc = None,
     def_fingers = Some
       [(INDEX, [FOLDED]),
        (MIDDLE, [FOLDED]),
        (RING, [FOLDED]),
        (PINKY, [EXTENDED]),
        (THUMB, [EXTENDED])],
     def_orientation = None,
     def_special = None,
     def_check = None,
     def_spread = None\<rparr>"

definition sign_Z_START :: SignDefinition where
  "sign_Z_START = \<lparr>
     def_desc = None,
     def_fingers = Some
       [(INDEX, [EXTENDED]),
        (MIDDLE, [FOLDED]),
        (RING, [FOLDED]),
        (PINKY, [FOLDED])],
     def_orientation = Some [UP],
     def_special = None,
     def_check = None,
     def_spread = None\<rparr>"

definition sign_I_LOVE_YOU :: SignDefinition where
  "sign_I_LOVE_YOU = \<lparr>
     def_desc = None,
     def_fingers = Some
       [(INDEX, [EXTENDED]),
        (MIDDLE, [FOLDED]),
        (RING, [FOLDED]),
        (PINKY, [EXTENDED]),
        (THUMB, [EXTENDED])],
     def_orientation = None,
     def_special = None,
     def_check = None,
     def_spread = None\<rparr>"

definition sign_ZERO :: SignDefinition where
  "sign_ZERO = \<lparr>
     def_desc = None,
     def_fingers = Some
       [(INDEX, [CURLED]),
        (MIDDLE, [EXTENDED]),
        (RING, [EXTENDED]),
        (PINKY, [EXTENDED]),
        (THUMB, [EXTENDED])],
     def_orientation = None,
     def_special = Some ''THUMB_INDEX_TOUCH'',
     def_check = None,
     def_spread = None\<rparr>"

definition sign_ONE :: SignDefinition where
  "sign_ONE = \<lparr>
     def_desc = None,
     def_fingers = Some
       [(INDEX, [EXTENDED]),
        (MIDDLE, [FOLDED]),
        (RING, [FOLDED]),
        (PINKY, [FOLDED])],
     def_orientation = None,
     def_special = None,
     def_check = None,
     def_spread = None\<rparr>"

definition sign_TWO :: SignDefinition where
  "sign_TWO = \<lparr>
     def_desc = None,
     def_fingers = Some
       [(INDEX, [EXTENDED]),
        (MIDDLE, [EXTENDED]),
        (RING, [FOLDED]),
        (PINKY, [FOLDED])],
     def_orientation = None,
     def_special = None,
     def_check = Some ''INDEX_MIDDLE_APART'',
     def_spread = None\<rparr>"

definition sign_THREE :: SignDefinition where
  "sign_THREE = \<lparr>
     def_desc = None,
     def_fingers = Some
       [(INDEX, [EXTENDED]),
        (MIDDLE, [EXTENDED]),
        (RING, [EXTENDED]),
        (PINKY, [FOLDED]),
        (THUMB, [EXTENDED])],
     def_orientation = None,
     def_special = None,
     def_check = None,
     def_spread = None\<rparr>"

definition sign_FOUR :: SignDefinition where
  "sign_FOUR = \<lparr>
     def_desc = None,
     def_fingers = Some
       [(INDEX, [EXTENDED]),
        (MIDDLE, [EXTENDED]),
        (RING, [EXTENDED]),
        (PINKY, [EXTENDED]),
        (THUMB, [FOLDED])],
     def_orientation = None,
     def_special = None,
     def_check = None,
     def_spread = None\<rparr>"

definition sign_FIVE :: SignDefinition where
  "sign_FIVE = \<lparr>
     def_desc = None,
     def_fingers = Some
       [(INDEX, [EXTENDED]),
        (MIDDLE, [EXTENDED]),
        (RING, [EXTENDED]),
        (PINKY, [EXTENDED]),
        (THUMB, [EXTENDED])],
     def_orientation = None,
     def_special = None,
     def_check = None,
     def_spread = None\<rparr>"

definition sign_SIX :: SignDefinition where
  "sign_SIX = \<lparr>
     def_desc = None,
     def_fingers = Some
       [(INDEX, [EXTENDED]),
        (MIDDLE, [EXTENDED]),
        (RING, [EXTENDED]),
        (PINKY, [FOLDED]),
        (THUMB, [FOLDED])],
     def_orientation = None,
     def_special = Some ''THUMB_PINKY_TOUCH'',
     def_check = None,
     def_spread = None\<rparr>"

definition sign_SEVEN :: SignDefinition where
  "sign_SEVEN = \<lparr>
     def_desc = None,
     def_fingers = Some
       [(INDEX, [EXTENDED]),
        (MIDDLE, [EXTENDED]),
        (RING, [FOLDED]),
        (PINKY, [EXTENDED]),
        (THUMB, [FOLDED])],
     def_orientation = None,
     def_special = None,
     def_check = None,
     def_spread = None\<rparr>"

definition sign_EIGHT :: SignDefinition where
  "sign_EIGHT = \<lparr>
     def_desc = None,
     def_fingers = Some
       [(INDEX, [EXTENDED]),
        (MIDDLE, [FOLDED]),
        (RING, [EXTENDED]),
        (PINKY, [EXTENDED]),
        (THUMB, [FOLDED])],
     def_orientation = None,
     def_special = None,
     def_check = None,
     def_spread = None\<rparr>"

definition sign_NINE :: SignDefinition where
  "sign_NINE = \<lparr>
     def_desc = None,
     def_fingers = Some
       [(INDEX, [FOLDED]),
        (MIDDLE, [EXTENDED]),
        (RING, [EXTENDED]),
        (PINKY, [EXTENDED]),
        (THUMB, [FOLDED])],
     def_orientation = None,
     def_special = None,
     def_check = None,
     def_spread = None\<rparr>"

definition sign_HELLO :: SignDefinition where
  "sign_HELLO = \<lparr>
     def_desc = None,
     def_fingers = Some
       [(INDEX, [EXTENDED]),
        (MIDDLE, [EXTENDED]),
        (RING, [EXTENDED]),
        (PINKY, [EXTENDED]),
        (THUMB, [EXTENDED])],
     def_orientation = None,
     def_special = None,
     def_check = None,
     def_spread = None\<rparr>"

definition sign_YES :: SignDefinition where
  "sign_YES = \<lparr>
     def_desc = None,
     def_fingers = Some
       [(INDEX, [FOLDED]),
        (MIDDLE, [FOLDED]),
        (RING, [FOLDED]),
        (PINKY, [FOLDED]),
        (THUMB, [EXTENDED])],
     def_orientation = None,
     def_special = None,
     def_check = None,
     def_spread = None\<rparr>"

definition sign_NO :: SignDefinition where
  "sign_NO = \<lparr>
     def_desc = None,
     def_fingers = Some
       [(INDEX, [EXTENDED]),
        (MIDDLE, [EXTENDED]),
        (RING, [FOLDED]),
        (PINKY, [FOLDED]),
        (THUMB, [EXTENDED])],
     def_orientation = None,
     def_special = Some ''INDEX_MIDDLE_THUMB_SNAP'',
     def_check = None,
     def_spread = None\<rparr>"

definition sign_OK :: SignDefinition where
  "sign_OK = \<lparr>
     def_desc = None,
     def_fingers = Some
       [(INDEX, [CURLED]),
        (MIDDLE, [EXTENDED]),
        (RING, [EXTENDED]),
        (PINKY, [EXTENDED])],
     def_orientation = None,
     def_special = Some ''THUMB_INDEX_TOUCH'',
     def_check = None,
     def_spread = None\<rparr>"

definition sign_CALL :: SignDefinition where
  "sign_CALL = \<lparr>
     def_desc = None,
     def_fingers = Some
       [(INDEX, [FOLDED]),
        (MIDDLE, [FOLDED]),
        (RING, [FOLDED]),
        (PINKY, [EXTENDED]),
        (THUMB, [EXTENDED])],
     def_orientation = None,
     def_special = None,
     def_check = None,
     def_spread = None\<rparr>"

definition sign_STOP :: SignDefinition where
  "sign_STOP = \<lparr>
     def_desc = None,
     def_fingers = Some
       [(INDEX, [EXTENDED]),
        (MIDDLE, [EXTENDED]),
        (RING, [EXTENDED]),
        (PINKY, [EXTENDED]),
        (THUMB, [EXTENDED])],
     def_orientation = Some [FORWARD],
     def_special = None,
     def_check = None,
     def_spread = None\<rparr>"

definition sign_HELP :: SignDefinition where
  "sign_HELP = \<lparr>
     def_desc = None,
     def_fingers = Some
       [(INDEX, [FOLDED]),
        (MIDDLE, [FOLDED]),
        (RING, [FOLDED]),
        (PINKY, [FOLDED]),
        (THUMB, [EXTENDED])],
     def_orientation = Some [UP],
     def_special = None,
     def_check = None,
     def_spread = None\<rparr>"

definition sign_THANK_YOU :: SignDefinition where
  "sign_THANK_YOU = \<lparr>
     def_desc = None,
     def_fingers = Some
       [(INDEX, [EXTENDED]),
        (MIDDLE, [EXTENDED]),
        (RING, [EXTENDED]),
        (PINKY, [EXTENDED]),
        (THUMB, [EXTENDED])],
     def_orientation = Some [FORWARD],
     def_special = None,
     def_check = None,
     def_spread = None\<rparr>"

definition sign_PLEASE :: SignDefinition where
  "sign_PLEASE = \<lparr>
     def_desc = None,
     def_fingers = Some
       [(INDEX, [EXTENDED]),
        (MIDDLE, [EXTENDED]),
        (RING, [EXTENDED]),
        (PINKY, [EXTENDED]),
        (THUMB, [FOLDED])],
     def_orientation = None,
     def_special = None,
     def_check = None,
     def_spread = None\<rparr>"

definition sign_SORRY :: SignDefinition where
  "sign_SORRY = \<lparr>
     def_desc = None,
     def_fingers = Some
       [(INDEX, [FOLDED]),
        (MIDDLE, [FOLDED]),
        (RING, [FOLDED]),
        (PINKY, [FOLDED]),
        (THUMB, [FOLDED])],
     def_orientation = None,
     def_special = None,
     def_check = None,
     def_spread = None\<rparr>"

definition sign_GOOD :: SignDefinition where
  "sign_GOOD = \<lparr>
     def_desc = None,
     def_fingers = Some
       [(INDEX, [FOLDED]),
        (MIDDLE, [FOLDED]),
        (RING, [FOLDED]),
        (PINKY, [FOLDED]),
        (THUMB, [EXTENDED])],
     def_orientation = Some [FORWARD],
     def_special = None,
     def_check = None,
     def_spread = None\<rparr>"

definition sign_BAD :: SignDefinition where
  "sign_BAD = \<lparr>
     def_desc = None,
     def_fingers = Some
       [(INDEX, [EXTENDED]),
        (MIDDLE, [EXTENDED]),
        (RING, [EXTENDED]),
        (PINKY, [EXTENDED]),
        (THUMB, [EXTENDED])],
     def_orientation = Some [DOWN],
     def_special = None,
     def_check = None,
     def_spread = None\<rparr>"

definition sign_WATER :: SignDefinition where
  "sign_WATER = \<lparr>
     def_desc = None,
     def_fingers = Some
       [(INDEX, [EXTENDED]),
        (MIDDLE, [FOLDED]),
        (RING, [FOLDED]),
        (PINKY, [FOLDED]),
        (THUMB, [EXTENDED])],
     def_orientation = None,
     def_special = Some ''THUMB_INDEX_TOUCH'',
     def_check = None,
     def_spread = None\<rparr>"

definition sign_FOOD :: SignDefinition where
  "sign_FOOD = \<lparr>
     def_desc = None,
     def_fingers = Some
       [(INDEX, [CURLED]),
        (MIDDLE, [CURLED]),
        (RING, [CURLED]),
        (PINKY, [CURLED]),
        (THUMB, [CURLED])],
     def_orientation = None,
     def_special = Some ''ALL_TIPS_TOUCH'',
     def_check = None,
     def_spread = None\<rparr>"

definition sign_DRINK :: SignDefinition where
  "sign_DRINK = \<lparr>
     def_desc = None,
     def_fingers = Some
       [(INDEX, [CURLED]),
        (MIDDLE, [CURLED]),
        (RING, [CURLED]),
        (PINKY, [CURLED]),
        (THUMB, [EXTENDED])],
     def_orientation = None,
     def_special = None,
     def_check = None,
     def_spread = None\<rparr>"

definition sign_MONEY :: SignDefinition where
  "sign_MONEY = \<lparr>
     def_desc = None,
     def_fingers = Some
       [(INDEX, [EXTENDED]),
        (MIDDLE, [EXTENDED]),
        (RING, [FOLDED]),
        (PINKY, [FOLDED]),
        (THUMB, [EXTENDED])],
     def_orientation = None,
     def_special = Some ''THUMB_INDEX_TOUCH'',
     def_check = None,
     def_spread = None\<rparr>"

definition sign_HOME :: SignDefinition where
  "sign_HOME = \<lparr>
     def_desc = None,
     def_fingers = Some
       [(INDEX, [CURLED]),
        (MIDDLE, [CURLED]),
        (RING, [CURLED]),
        (PINKY, [CURLED]),
        (THUMB, [CURLED])],
     def_orientation = None,
     def_special = None,
     def_check = None,
     def_spread = None\<rparr>"

definition sign_WORK :: SignDefinition where
  "sign_WORK = \<lparr>
     def_desc = None,
     def_fingers = Some
       [(INDEX, [FOLDED]),
        (MIDDLE, [FOLDED]),
        (RING, [FOLDED]),
        (PINKY, [FOLDED]),
        (THUMB, [FOLDED])],
     def_orientation = Some [DOWN],
     def_special = None,
     def_check = None,
     def_spread = None\<rparr>"

definition sign_FRIEND :: SignDefinition where
  "sign_FRIEND = \<lparr>
     def_desc = None,
     def_fingers = Some
       [(INDEX, [CURLED]),
        (MIDDLE, [FOLDED]),
        (RING, [FOLDED]),
        (PINKY, [FOLDED]),
        (THUMB, [CURLED])],
     def_orientation = None,
     def_special = None,
     def_check = None,
     def_spread = None\<rparr>"

definition sign_LOVE :: SignDefinition where
  "sign_LOVE = \<lparr>
     def_desc = None,
     def_fingers = Some
       [(INDEX, [FOLDED]),
        (MIDDLE, [FOLDED]),
        (RING, [FOLDED]),
        (PINKY, [FOLDED]),
        (THUMB, [FOLDED])],
     def_orientation = None,
     def_special = None,
     def_check = None,
     def_spread = None\<rparr>"

definition sign_HAPPY :: SignDefinition where
  "sign_HAPPY = \<lparr>
     def_desc = None,
     def_fingers = Some
       [(INDEX, [EXTENDED]),
        (MIDDLE, [EXTENDED]),
        (RING, [EXTENDED]),
        (PINKY, [EXTENDED]),
        (THUMB, [EXTENDED])],
     def_orientation = Some [UP],
     def_special = None,
     def_check = None,
     def_spread = None\<rparr>"

definition sign_SAD :: SignDefinition where
  "sign_SAD = \<lparr>
     def_desc = None,
     def_fingers = Some
       [(INDEX, [EXTENDED]),
        (MIDDLE, [EXTENDED]),
        (RING, [EXTENDED]),
        (PINKY, [EXTENDED]),
        (THUMB, [FOLDED])],
     def_orientation = Some [DOWN],
     def_special = None,
     def_check = None,
     def_spread = None\<rparr>"

definition sign_HUNGRY :: SignDefinition where
  "sign_HUNGRY = \<lparr>
     def_desc = None,
     def_fingers = Some
       [(INDEX, [CURLED]),
        (MIDDLE, [CURLED]),
        (RING, [CURLED]),
        (PINKY, [CURLED]),
        (THUMB, [EXTENDED])],
     def_orientation = Some [DOWN],
     def_special = None,
     def_check = None,
     def_spread = None\<rparr>"

definition sign_TIRED :: SignDefinition where
  "sign_TIRED = \<lparr>
     def_desc = None,
     def_fingers = Some
       [(INDEX, [CURLED]),
        (MIDDLE, [CURLED]),
        (RING, [CURLED]),
        (PINKY, [CURLED]),
        (THUMB, [CURLED])],
     def_orientation = Some [DOWN],
     def_special = None,
     def_check = None,
     def_spread = None\<rparr>"

definition sign_BATHROOM :: SignDefinition where
  "sign_BATHROOM = \<lparr>
     def_desc = None,
     def_fingers = Some
       [(INDEX, [FOLDED]),
        (MIDDLE, [FOLDED]),
        (RING, [FOLDED]),
        (PINKY, [FOLDED]),
        (THUMB, [EXTENDED])],
     def_orientation = None,
     def_special = Some ''THUMB_INDEX_TOUCH'',
     def_check = None,
     def_spread = None\<rparr>"

definition sign_PHONE :: SignDefinition where
  "sign_PHONE = \<lparr>
     def_desc = None,
     def_fingers = Some
       [(INDEX, [FOLDED]),
        (MIDDLE, [FOLDED]),
        (RING, [FOLDED]),
        (PINKY, [EXTENDED]),
        (THUMB, [EXTENDED])],
     def_orientation = None,
     def_special = None,
     def_check = None,
     def_spread = None\<rparr>"

definition sign_WAIT :: SignDefinition where
  "sign_WAIT = \<lparr>
     def_desc = None,
     def_fingers = Some
       [(INDEX, [EXTENDED]),
        (MIDDLE, [EXTENDED]),
        (RING, [EXTENDED]),
        (PINKY, [EXTENDED]),
        (THUMB, [EXTENDED])],
     def_orientation = None,
     def_special = None,
     def_check = None,
     def_spread = Some True\<rparr>"

definition sign_COME :: SignDefinition where
  "sign_COME = \<lparr>
     def_desc = None,
     def_fingers = Some
       [(INDEX, [CURLED]),
        (MIDDLE, [FOLDED]),
        (RING, [FOLDED]),
        (PINKY, [FOLDED]),
        (THUMB, [FOLDED])],
     def_orientation = None,
     def_special = None,
     def_check = None,
     def_spread = None\<rparr>"

definition sign_GO :: SignDefinition where
  "sign_GO = \<lparr>
     def_desc = None,
     def_fingers = Some
       [(INDEX, [EXTENDED]),
        (MIDDLE, [FOLDED]),
        (RING, [FOLDED]),
        (PINKY, [FOLDED]),
        (THUMB, [FOLDED])],
     def_orientation = Some [FORWARD],
     def_special = None,
     def_check = None,
     def_spread = None\<rparr>"

definition sign_MORE :: SignDefinition where
  "sign_MORE = \<lparr>
     def_desc = None,
     def_fingers = Some
       [(INDEX, [CURLED]),
        (MIDDLE, [CURLED]),
        (RING, [CURLED]),
        (PINKY, [CURLED]),
        (THUMB, [CURLED])],
     def_orientation = None,
     def_special = Some ''ALL_TIPS_TOUCH'',
     def_check = None,
     def_spread = None\<rparr>"

definition sign_FINISHED :: SignDefinition where
  "sign_FINISHED = \<lparr>
     def_desc = None,
     def_fingers = Some
       [(INDEX, [EXTENDED]),
        (MIDDLE, [EXTENDED]),
        (RING, [EXTENDED]),
        (PINKY, [EXTENDED]),
        (THUMB, [EXTENDED])],
     def_orientation = Some [DOWN],
     def_special = None,
     def_check = None,
     def_spread = Some True\<rparr>"

definition get_definitions :: "(string \<times> SignDefinition) list" where
  "get_definitions =
    [(''0'', sign_0), (''1'', sign_1), (''2'', sign_2), (''3'', sign_3), (''4'', sign_4),
     (''5'', sign_5), (''A'', sign_A), (''B'', sign_B), (''C'', sign_C), (''D'', sign_D),
     (''E'', sign_E), (''F'', sign_F), (''G'', sign_G), (''H'', sign_H), (''I'', sign_I),
     (''K'', sign_K), (''L'', sign_L), (''M'', sign_M), (''N'', sign_N), (''O'', sign_O),
     (''P'', sign_P), (''Q'', sign_Q), (''R'', sign_R), (''S'', sign_S), (''T'', sign_T),
     (''U'', sign_U), (''V'', sign_V), (''W'', sign_W), (''X'', sign_X), (''Y'', sign_Y),
     (''Z_START'', sign_Z_START), (''I LOVE YOU'', sign_I_LOVE_YOU),
     (''ZERO'', sign_ZERO), (''ONE'', sign_ONE), (''TWO'', sign_TWO),
     (''THREE'', sign_THREE), (''FOUR'', sign_FOUR), (''FIVE'', sign_FIVE),
     (''SIX'', sign_SIX), (''SEVEN'', sign_SEVEN), (''EIGHT'', sign_EIGHT),
     (''NINE'', sign_NINE), (''HELLO'', sign_HELLO), (''YES'', sign_YES),
     (''NO'', sign_NO), (''OK'', sign_OK), (''CALL'', sign_CALL), (''STOP'', sign_STOP),
     (''HELP'', sign_HELP), (''THANK YOU'', sign_THANK_YOU), (''PLEASE'', sign_PLEASE),
     (''SORRY'', sign_SORRY), (''GOOD'', sign_GOOD), (''BAD'', sign_BAD),
     (''WATER'', sign_WATER), (''FOOD'', sign_FOOD), (''DRINK'', sign_DRINK),
     (''MONEY'', sign_MONEY), (''HOME'', sign_HOME), (''WORK'', sign_WORK),
     (''FRIEND'', sign_FRIEND), (''LOVE'', sign_LOVE), (''HAPPY'', sign_HAPPY),
     (''SAD'', sign_SAD), (''HUNGRY'', sign_HUNGRY), (''TIRED'', sign_TIRED),
     (''BATHROOM'', sign_BATHROOM), (''PHONE'', sign_PHONE), (''WAIT'', sign_WAIT),
     (''COME'', sign_COME), (''GO'', sign_GO), (''MORE'', sign_MORE),
     (''FINISHED'', sign_FINISHED)]"

subsection \<open>ASLRecognizer\<close>

text \<open>The loop over \<^verbatim>\<open>sign_def["fingers"].items()\<close>, on the pair of counters.\<close>

fun finger_checks ::
  "HandState \<Rightarrow> (Finger \<times> FingerState list) list \<Rightarrow> real \<times> nat \<Rightarrow> real \<times> nat" where
  "finger_checks hs [] (score, total_checks) = (score, total_checks)"
| "finger_checks hs ((finger, required_states) # rest) (score, total_checks) =
     finger_checks hs rest
       (if fingers hs finger \<in> set required_states then score + 1 else score,
        total_checks + 1)"

text \<open>The \<^verbatim>\<open>if\<close>/\<^verbatim>\<open>elif\<close> chain over \<^verbatim>\<open>check_type\<close>; it has no \<^verbatim>\<open>else\<close>, so
  \<^verbatim>\<open>check_passed\<close> keeps its initial value False for every other tag.\<close>

definition special_check_passed :: "string \<Rightarrow> vec3 list \<Rightarrow> bool" where
  "special_check_passed check_type landmarks =
     (if check_type = ''THUMB_INDEX_TOUCH''
        then vnorm (vsub (landmarks ! 4) (landmarks ! 8)) < 5 / 100
      else if check_type = ''THUMB_MIDDLE_TOUCH''
        then vnorm (vsub (landmarks ! 4) (landmarks ! 12)) < 5 / 100
      else if check_type = ''ALL_TIPS_TOUCH''
        then (let center = landmarks ! 4;
                  d1 = vnorm (vsub (landmarks ! 8) center);
                  d2 = vnorm (vsub (landmarks ! 12) center)
              in d1 < 5 / 100 \<and> d2 < 5 / 100)
      else if check_type = ''THUMB_UNDER_INDEX''
        then fst (landmarks ! 4) > fst (landmarks ! 5)
      else False)"

text \<open>The two counters after the three blocks of checks.\<close>

definition match_counters :: "HandState \<Rightarrow> SignDefinition \<Rightarrow> real \<times> nat" where
  "match_counters hs sign_def =
     (let c1 = (case def_fingers sign_def of
                  None \<Rightarrow> (0, 0)
                | Some fs \<Rightarrow> finger_checks hs fs (0, 0));
          c2 = (case def_orientation sign_def of
                  None \<Rightarrow> c1
                | Some os \<Rightarrow>
                    (if palm_orientation hs \<in> set os then fst c1 + 1 else fst c1, snd c1 + 1));
          c3 = (case def_special sign_def of
                  None \<Rightarrow> c2
                | Some check_type \<Rightarrow>
                    (if special_check_passed check_type (raw_landmarks hs)
                     then fst c2 + 1 else fst c2, snd c2 + 1))
      in c3)"

definition calculate_match_score :: "HandState \<Rightarrow> SignDefinition \<Rightarrow> real" where
  "calculate_match_score hs sign_def =
     (case match_counters hs sign_def of
        (score, total_checks) \<Rightarrow>
          if total_checks = 0 then 0 else score / real total_checks)"

definition CONFIDENCE_THRESHOLD :: real where
  "CONFIDENCE_THRESHOLD = 75 / 100"

text \<open>The loop of \<^verbatim>\<open>predict\<close> over \<^verbatim>\<open>self.lexicon.items()\<close>, on
  \<^verbatim>\<open>(best_match, best_confidence)\<close>.\<close>

fun best_loop ::
  "HandState \<Rightarrow> (string \<times> SignDefinition) list \<Rightarrow> string option \<times> real
     \<Rightarrow> string option \<times> real" where
  "best_loop hs [] (best_match, best_confidence) = (best_match, best_confidence)"
| "best_loop hs ((sign_name, sign_def) # rest) (best_match, best_confidence) =
     (let confidence = calculate_match_score hs sign_def in
      if confidence > best_confidence
      then best_loop hs rest (Some sign_name, confidence)
      else best_loop hs rest (best_match, best_confidence))"

text \<open>The part of \<^verbatim>\<open>predict\<close> after a hand state has been extracted.\<close>

definition predict_hand :: "(string \<times> SignDefinition) list \<Rightarrow> HandState \<Rightarrow> string option \<times> real" where
  "predict_hand lexicon hs =
     (case best_loop hs lexicon (None, 0) of
        (best_match, best_confidence) \<Rightarrow>
          if best_confidence \<ge> CONFIDENCE_THRESHOLD
          then (best_match, best_confidence)
          else (None, best_confidence))"

text \<open>\<^verbatim>\<open>predict\<close>, with the lexicon \<^verbatim>\<open>ASLLexicon.get_definitions()\<close> of the recognizer.\<close>

definition predict ::
  "filters \<Rightarrow> real \<Rightarrow> real \<Rightarrow> landmark list
     \<Rightarrow> (py_error + string option \<times> real) \<times> filters" where
  "predict fs t now raw =
     (case process fs t now raw of
        (Inl e, fs') \<Rightarrow> (Inl e, fs')
      | (Inr None, fs') \<Rightarrow> (Inr (None, 0), fs')
      | (Inr (Some hand_state), fs') \<Rightarrow> (Inr (predict_hand get_definitions hand_state), fs'))"

subsection \<open>SentenceBuilder\<close>

definition BUFFER_SIZE :: nat where
  "BUFFER_SIZE = 8"

definition MAJORITY_THRESHOLD :: real where
  "MAJORITY_THRESHOLD = 65 / 100"

definition WORD_COOLDOWN :: real where
  "WORD_COOLDOWN = 5 / 10"

record SentenceBuilder =
  current_sentence :: "string list"
  frame_buffer :: "string list"
  last_word_time :: real
  cooldown :: real

definition new_builder :: SentenceBuilder where
  "new_builder =
     \<lparr>current_sentence = [], frame_buffer = [], last_word_time = 0, cooldown = WORD_COOLDOWN\<rparr>"

text \<open>\<^verbatim>\<open>append\<close> on a \<^verbatim>\<open>deque(maxlen=BUFFER_SIZE)\<close>: a full deque drops its oldest
  element.\<close>

definition deque_append :: "string list \<Rightarrow> string \<Rightarrow> string list" where
  "deque_append buf x = (if length buf \<ge> BUFFER_SIZE then tl buf @ [x] else buf @ [x])"

text \<open>\<^verbatim>\<open>Counter(iterable)\<close>: the counts, in order of first occurrence.\<close>

fun counter_add :: "(string \<times> nat) list \<Rightarrow> string \<Rightarrow> (string \<times> nat) list" where
  "counter_add [] x = [(x, 1)]"
| "counter_add ((k, n) # rest) x =
     (if k = x then (k, n + 1) # rest else (k, n) # counter_add rest x)"

definition Counter :: "string list \<Rightarrow> (string \<times> nat) list" where
  "Counter xs = foldl counter_add [] xs"

text \<open>\<^verbatim>\<open>counter[k]\<close>: the count held for a key, 0 for a key that is absent.\<close>

definition count_in :: "(string \<times> nat) list \<Rightarrow> string \<Rightarrow> nat" where
  "count_in c k = (case map_of c k of None \<Rightarrow> 0 | Some n \<Rightarrow> n)"

text \<open>\<^verbatim>\<open>most_common(1)\<close> is \<^verbatim>\<open>max\<close> over the items by count: the first item of largest
  count. On an empty counter the list is empty.\<close>

fun max_by_count :: "string \<times> nat \<Rightarrow> (string \<times> nat) list \<Rightarrow> string \<times> nat" where
  "max_by_count best [] = best"
| "max_by_count best (item # rest) =
     (if snd item > snd best then max_by_count item rest else max_by_count best rest)"

definition most_common1 :: "(string \<times> nat) list \<Rightarrow> (string \<times> nat) list" where
  "most_common1 counts = (case counts of [] \<Rightarrow> [] | item # rest \<Rightarrow> [max_by_count item rest])"

definition commit_word :: "SentenceBuilder \<Rightarrow> string \<Rightarrow> real \<Rightarrow> SentenceBuilder" where
  "commit_word sb word now =
     (if current_sentence sb \<noteq> []
         \<and> last (current_sentence sb) = word \<and> now - last_word_time sb < cooldown sb
      then sb
      else sb\<lparr>current_sentence := current_sentence sb @ [word], last_word_time := now\<rparr>)"

text \<open>
  \<^verbatim>\<open>add_prediction\<close>; \<open>now\<close> is the clock that \<^verbatim>\<open>_commit_word\<close> reads. The prediction
  is \<^verbatim>\<open>None\<close> or a string. \<^verbatim>\<open>most_common(1)[0]\<close> is read only on a full buffer, which is
  not empty.
\<close>

definition add_prediction ::
  "SentenceBuilder \<Rightarrow> string option \<Rightarrow> real \<Rightarrow> real \<Rightarrow> SentenceBuilder" where
  "add_prediction sb prediction confidence now =
     (case prediction of
        None \<Rightarrow> sb
      | Some p \<Rightarrow>
          if p = [] then sb
          else
            (let sb1 = sb\<lparr>frame_buffer := deque_append (frame_buffer sb) p\<rparr> in
             if length (frame_buffer sb1) = BUFFER_SIZE then
               (case most_common1 (Counter (frame_buffer sb1)) of
                  [] \<Rightarrow> sb1
                | (most_common, count) # _ \<Rightarrow>
                    if real count > real BUFFER_SIZE * MAJORITY_THRESHOLD
                    then (commit_word sb1 most_common now)\<lparr>frame_buffer := []\<rparr>
                    else sb1)
             else sb1))"

definition get_sentence :: "SentenceBuilder \<Rightarrow> string" where
  "get_sentence sb = concat (case current_sentence sb of [] \<Rightarrow> []
                             | w # ws \<Rightarrow> w # map (\<lambda>v. '' '' @ v) ws)"

subsection \<open>The landmarks message of the WebSocket handler\<close>

text \<open>
  One \<^verbatim>\<open>"landmarks"\<close> message on a session: the recognizer's filter bank and the
  session's sentence builder before and after, and what is sent back (\<open>None\<close>: nothing, the
  handler went on to the next message; \<open>Inl e\<close>: the error message; \<open>Inr\<close>: the prediction with
  the sentence).
\<close>

definition landmarks_message ::
  "filters \<Rightarrow> SentenceBuilder \<Rightarrow> real \<Rightarrow> real \<Rightarrow> real \<Rightarrow> landmark list
     \<Rightarrow> (py_error + (string option \<times> real \<times> string)) option \<times> filters \<times> SentenceBuilder" where
  "landmarks_message fs sb t now now' landmarks =
     (if landmarks = [] then (None, fs, sb)
      else
        (case predict fs t now landmarks of
           (Inl e, fs') \<Rightarrow> (Some (Inl e), fs', sb)
         | (Inr (gesture, confidence), fs') \<Rightarrow>
             (let sb' = (if gesture \<noteq> None \<and> gesture \<noteq> Some []
                         then add_prediction sb gesture confidence now' else sb)
              in (Some (Inr (gesture, confidence, get_sentence sb')), fs', sb'))))"

subsection \<open>Initial states and example frames\<close>

text \<open>\<^verbatim>\<open>self.filters = {}\<close>: the filter bank of a new extractor.\<close>

definition new_extractor :: filters where
  "new_extractor = Map.empty"

text \<open>Landmarks as the client sends them, and a frame of 21 landmarks whose second landmark
  has no \<^verbatim>\<open>x\<close> key.\<close>

definition zero_landmark :: landmark where
  "zero_landmark = LmDict [''x'' \<mapsto> Num 0, ''y'' \<mapsto> Num 0, ''z'' \<mapsto> Num 0]"

definition still_landmark :: landmark where
  "still_landmark = LmDict [''x'' \<mapsto> Num (1 / 2), ''y'' \<mapsto> Num (1 / 2), ''z'' \<mapsto> Num 0]"

definition no_x_landmark :: landmark where
  "no_x_landmark = LmDict [''y'' \<mapsto> Num (1 / 2), ''z'' \<mapsto> Num 0]"

definition missing_x_frame :: "landmark list" where
  "missing_x_frame = still_landmark # no_x_landmark # replicate 19 still_landmark"

subsection \<open>The specification's wording of two computations\<close>

text \<open>
  The match score as the specification words it: the list of the outcomes of the checks
  present in a definition (one per finger of the \<^verbatim>\<open>fingers\<close> dict, one for the orientation
  set, one for the special predicate), and the fraction of them that passed, 0 when there is
  no check.
\<close>

definition applicable_checks :: "HandState \<Rightarrow> SignDefinition \<Rightarrow> bool list" where
  "applicable_checks hs sign_def =
     (case def_fingers sign_def of
        None \<Rightarrow> []
      | Some fs \<Rightarrow> map (\<lambda>(finger, required_states). fingers hs finger \<in> set required_states) fs)
     @ (case def_orientation sign_def of
          None \<Rightarrow> []
        | Some os \<Rightarrow> [palm_orientation hs \<in> set os])
     @ (case def_special sign_def of
          None \<Rightarrow> []
        | Some check_type \<Rightarrow> [special_check_passed check_type (raw_landmarks hs)])"

definition fraction_passed :: "bool list \<Rightarrow> real" where
  "fraction_passed checks =
     (if checks = [] then 0 else real (length (filter id checks)) / real (length checks))"

text \<open>
  The palm orientation as the specification words its tie rule: the axis of largest absolute
  component, a tie going to the axis that comes first in the order z, y, x.
\<close>

definition orientation_by_priority :: "vec3 \<Rightarrow> Orientation" where
  "orientation_by_priority palm_normal =
     (case palm_normal of (nx, ny, nz) \<Rightarrow>
        if \<bar>nz\<bar> \<ge> \<bar>nx\<bar> \<and> \<bar>nz\<bar> \<ge> \<bar>ny\<bar> then (if nz < 0 then FORWARD else BACKWARD)
        else if \<bar>ny\<bar> \<ge> \<bar>nx\<bar> then (if ny < 0 then UP else DOWN)
        else (if nx < 0 then LEFT else RIGHT))"

section \<open>Properties\<close>

text \<open>
  C8. For every filter state and every call at time \<open>t\<close> with raw value \<open>x\<close> whose elapsed time
  \<open>t - t_prev\<close> is at most zero, the call returns \<open>x\<close> itself and the filter (with its fields
  \<open>x_prev\<close>, \<open>dx_prev\<close>, \<open>t_prev\<close>) is the one before the call.
\<close>

theorem filter_call_nonpositive_elapsed:
  "t - t_prev f \<le> 0 \<Longrightarrow> filter_call f t x = Inr (x, f)"
  by (simp add: filter_call_def)

theorem filter_call_nonpositive_elapsed_witness:
  "(1::real) - t_prev (new_filter 1 (Num 5)) \<le> 0
   \<and> filter_call (new_filter 1 (Num 5)) 1 (Num 7) = Inr (Num 7, new_filter 1 (Num 5))"
  using filter_call_nonpositive_elapsed [of 1 "new_filter 1 (Num 5)" "Num 7"]
  by (simp add: new_filter_def)

subsection \<open>Sentence builder: repeat suppression\<close>

text \<open>
  C4. A commit of word \<open>w\<close> at time \<open>now\<close> is dropped (the builder stays as it is) if and only
  if the sentence is not empty, its last token is \<open>w\<close>, and \<open>now\<close> minus the time of the last
  commit is strictly below the cooldown. A commit that is not dropped appends \<open>w\<close> and sets
  the time of the last commit to \<open>now\<close>. Committing \<open>a\<close>, then a different \<open>b\<close>, then \<open>a\<close>
  again appends \<open>b\<close> and \<open>a\<close> whatever the three times are.
\<close>

theorem commit_word_cooldown:
  "(commit_word sb w now = sb \<longleftrightarrow>
      current_sentence sb \<noteq> [] \<and> last (current_sentence sb) = w
      \<and> now - last_word_time sb < cooldown sb)
   \<and> (commit_word sb w now \<noteq> sb \<longrightarrow>
        commit_word sb w now
          = sb\<lparr>current_sentence := current_sentence sb @ [w], last_word_time := now\<rparr>)
   \<and> (a \<noteq> b \<longrightarrow>
        current_sentence (commit_word (commit_word (commit_word sb a t1) b t2) a t3)
          = current_sentence (commit_word sb a t1) @ [b, a]
        \<and> last_word_time (commit_word (commit_word (commit_word sb a t1) b t2) a t3) = t3)"
proof -
  have neq: "sb\<lparr>current_sentence := current_sentence sb @ [w], last_word_time := now\<rparr> \<noteq> sb"
  proof
    assume "sb\<lparr>current_sentence := current_sentence sb @ [w], last_word_time := now\<rparr> = sb"
    then have "current_sentence
                 (sb\<lparr>current_sentence := current_sentence sb @ [w], last_word_time := now\<rparr>)
               = current_sentence sb"
      by simp
    then show False by simp
  qed
  have last_a: "last (current_sentence (commit_word sb a t1)) = a
                \<and> current_sentence (commit_word sb a t1) \<noteq> []"
    by (simp add: commit_word_def)
  show ?thesis
    using neq last_a by (auto simp add: commit_word_def)
qed

theorem commit_word_cooldown_witness:
  "''A'' \<noteq> ''B''
   \<and> commit_word new_builder ''A'' 1 \<noteq> new_builder
   \<and> commit_word new_builder ''A'' 1
       = new_builder\<lparr>current_sentence := [''A''], last_word_time := 1\<rparr>
   \<and> current_sentence
         (commit_word (commit_word (commit_word new_builder ''A'' 1) ''B'' 1) ''A'' 1)
       = [''A'', ''B'', ''A'']"
  using commit_word_cooldown [of new_builder "''A''" 1 "''A''" "''B''" 1 1 1]
  by (simp add: new_builder_def commit_word_def)

text \<open>
  C10. A suppressed repeat (same last token, within the cooldown) leaves the whole builder
  as it is: the sentence and the time of the last commit. So after a commit of \<open>w\<close> at \<open>t0\<close>
  that was appended, an attempt at \<open>t1\<close> within the cooldown of \<open>t0\<close> changes nothing, and a
  later attempt at \<open>t2\<close> is appended as soon as the cooldown counted from \<open>t0\<close> (not from
  \<open>t1\<close>) has elapsed.
\<close>

theorem suppressed_commit_unchanged:
  "(current_sentence sb \<noteq> [] \<and> last (current_sentence sb) = w
      \<and> now - last_word_time sb < cooldown sb
      \<longrightarrow> commit_word sb w now = sb)
   \<and> (commit_word sb0 w t0 \<noteq> sb0 \<and> t1 - t0 < cooldown sb0 \<and> \<not> t2 - t0 < cooldown sb0
      \<longrightarrow> commit_word (commit_word sb0 w t0) w t1 = commit_word sb0 w t0
        \<and> commit_word (commit_word (commit_word sb0 w t0) w t1) w t2
            = sb0\<lparr>current_sentence := current_sentence sb0 @ [w, w], last_word_time := t2\<rparr>)"
  by (auto simp add: commit_word_def)

theorem suppressed_commit_unchanged_witness:
  "commit_word new_builder ''A'' 10 \<noteq> new_builder
   \<and> (10 + 4 / 10) - 10 < cooldown new_builder \<and> \<not> (10 + 5 / 10) - 10 < cooldown new_builder
   \<and> current_sentence (commit_word new_builder ''A'' 10) \<noteq> []
   \<and> last (current_sentence (commit_word new_builder ''A'' 10)) = ''A''
   \<and> (10 + 4 / 10) - last_word_time (commit_word new_builder ''A'' 10)
        < cooldown (commit_word new_builder ''A'' 10)
   \<and> commit_word (commit_word new_builder ''A'' 10) ''A'' (10 + 4 / 10)
       = commit_word new_builder ''A'' 10
   \<and> commit_word (commit_word (commit_word new_builder ''A'' 10) ''A'' (10 + 4 / 10)) ''A''
         (10 + 5 / 10)
       = new_builder\<lparr>current_sentence := [''A'', ''A''], last_word_time := 10 + 5 / 10\<rparr>"
  using suppressed_commit_unchanged
          [of "commit_word new_builder ''A'' 10" "''A''" "10 + 4 / 10" new_builder 10
              "10 + 4 / 10" "10 + 5 / 10"]
  by (simp add: new_builder_def commit_word_def WORD_COOLDOWN_def)

subsection \<open>Sentence builder: majority vote\<close>

lemma counter_add_keys: "fst ` set (counter_add c x) = insert x (fst ` set c)"
  by (induction c x rule: counter_add.induct) auto

lemma counter_add_distinct: "distinct (map fst c) \<Longrightarrow> distinct (map fst (counter_add c x))"
  by (induction c x rule: counter_add.induct) (auto simp: counter_add_keys)

lemma counter_add_count:
  "count_in (counter_add c x) k = count_in c k + (if k = x then 1 else 0)"
  by (induction c x rule: counter_add.induct) (auto simp: count_in_def)

lemma foldl_counter_add:
  "distinct (map fst c) \<Longrightarrow>
   distinct (map fst (foldl counter_add c xs))
   \<and> fst ` set (foldl counter_add c xs) = fst ` set c \<union> set xs
   \<and> (\<forall>k. count_in (foldl counter_add c xs) k = count_in c k + count_list xs k)"
proof (induction xs arbitrary: c)
  case Nil
  then show ?case by simp
next
  case (Cons x xs)
  from Cons.prems have d: "distinct (map fst (counter_add c x))"
    by (rule counter_add_distinct)
  from Cons.IH [OF d] show ?case
    by (auto simp: counter_add_keys counter_add_count)
qed

lemma Counter_entries:
  "(k, n) \<in> set (Counter xs) \<longleftrightarrow> k \<in> set xs \<and> n = count_list xs k"
proof -
  have f: "distinct (map fst (Counter xs))" "fst ` set (Counter xs) = set xs"
    "\<And>k. count_in (Counter xs) k = count_list xs k"
    using foldl_counter_add [of "[]" xs] by (simp_all add: Counter_def count_in_def)
  show ?thesis
  proof
    assume m: "(k, n) \<in> set (Counter xs)"
    then have "map_of (Counter xs) k = Some n" using f(1) by simp
    then have "n = count_list xs k" using f(3) [of k] by (simp add: count_in_def)
    moreover have "k \<in> set xs" using m f(2) by force
    ultimately show "k \<in> set xs \<and> n = count_list xs k" by simp
  next
    assume a: "k \<in> set xs \<and> n = count_list xs k"
    then have "k \<in> fst ` set (Counter xs)" using f(2) by simp
    then obtain n' where n': "(k, n') \<in> set (Counter xs)" by force
    then have "map_of (Counter xs) k = Some n'" using f(1) by simp
    then have "n' = count_list xs k" using f(3) [of k] by (simp add: count_in_def)
    then show "(k, n) \<in> set (Counter xs)" using n' a by simp
  qed
qed

lemma max_by_count_max:
  "max_by_count best rest \<in> set (best # rest)
   \<and> (\<forall>item \<in> set (best # rest). snd item \<le> snd (max_by_count best rest))"
  by (induction best rest rule: max_by_count.induct) (auto simp: not_less intro: order_trans less_imp_le)

lemma most_common1_Counter:
  assumes "xs \<noteq> []"
  shows "\<exists>k. most_common1 (Counter xs) = [(k, count_list xs k)] \<and> k \<in> set xs
           \<and> (\<forall>k'. count_list xs k' \<le> count_list xs k)"
proof -
  obtain x where "x \<in> set xs" using assms by (cases xs) auto
  then have "(x, count_list xs x) \<in> set (Counter xs)" by (simp add: Counter_entries)
  then obtain item rest where c: "Counter xs = item # rest" by (cases "Counter xs") auto
  let ?b = "max_by_count item rest"
  have mc: "most_common1 (Counter xs) = [?b]" by (simp add: most_common1_def c)
  have mem: "?b \<in> set (Counter xs)" and mx: "\<forall>i \<in> set (Counter xs). snd i \<le> snd ?b"
    using max_by_count_max [of item rest] c by simp_all
  obtain k n where b: "?b = (k, n)" by (cases ?b)
  have kn: "k \<in> set xs" "n = count_list xs k" using mem b by (simp_all add: Counter_entries)
  have "count_list xs k' \<le> count_list xs k" for k'
  proof (cases "k' \<in> set xs")
    case True
    then have "(k', count_list xs k') \<in> set (Counter xs)" by (simp add: Counter_entries)
    then show ?thesis using mx b kn by force
  next
    case False
    then show ?thesis by (simp add: count_list_0_iff)
  qed
  then show ?thesis using mc b kn by auto
qed

lemma count_list_two: "k \<noteq> w \<Longrightarrow> count_list xs k + count_list xs w \<le> length xs"
  by (induction xs) auto

lemma majority_iff: "real (n::nat) > real BUFFER_SIZE * MAJORITY_THRESHOLD \<longleftrightarrow> 6 \<le> n"
  by (auto simp: BUFFER_SIZE_def MAJORITY_THRESHOLD_def)

text \<open>
  C3. A prediction that is \<^verbatim>\<open>None\<close> or empty changes nothing (it is not appended). A
  non-empty label \<open>p\<close> is appended to the vote buffer (capacity 8, oldest dropped). The vote is
  evaluated only when the buffer then holds exactly 8 labels: if some label \<open>w\<close> has a count
  strictly above \<open>8 * 0.65\<close>, then \<open>w\<close> is committed and the buffer emptied; if the buffer is
  not full or no label has such a count, nothing is committed and the buffer is kept. A count
  of 6 is above the bound, a count of 5 is not.
\<close>

theorem add_prediction_majority:
  "add_prediction sb None c now = sb
   \<and> add_prediction sb (Some []) c now = sb
   \<and> (p \<noteq> [] \<longrightarrow>
        (let buf = deque_append (frame_buffer sb) p; sb1 = sb\<lparr>frame_buffer := buf\<rparr> in
           (length buf = BUFFER_SIZE
              \<and> real (count_list buf w) > real BUFFER_SIZE * MAJORITY_THRESHOLD
            \<longrightarrow> add_prediction sb (Some p) c now = (commit_word sb1 w now)\<lparr>frame_buffer := []\<rparr>)
         \<and> (\<not> (length buf = BUFFER_SIZE
                 \<and> (\<exists>v \<in> set buf. real (count_list buf v) > real BUFFER_SIZE * MAJORITY_THRESHOLD))
            \<longrightarrow> add_prediction sb (Some p) c now = sb1)))
   \<and> real (6::nat) > real BUFFER_SIZE * MAJORITY_THRESHOLD
   \<and> \<not> real (5::nat) > real BUFFER_SIZE * MAJORITY_THRESHOLD"
proof -
  define buf where "buf = deque_append (frame_buffer sb) p"
  define sb1 where "sb1 = sb\<lparr>frame_buffer := buf\<rparr>"
  have unfold: "add_prediction sb (Some p) c now =
      (if length buf = BUFFER_SIZE then
         (case most_common1 (Counter buf) of
            [] \<Rightarrow> sb1
          | (most_common, count) # _ \<Rightarrow>
              if real count > real BUFFER_SIZE * MAJORITY_THRESHOLD
              then (commit_word sb1 most_common now)\<lparr>frame_buffer := []\<rparr>
              else sb1)
       else sb1)" if "p \<noteq> []"
    using that unfolding sb1_def buf_def by (simp add: add_prediction_def Let_def)
  have commit: "add_prediction sb (Some p) c now = (commit_word sb1 w now)\<lparr>frame_buffer := []\<rparr>"
    if p: "p \<noteq> []" and len: "length buf = BUFFER_SIZE"
      and maj: "real (count_list buf w) > real BUFFER_SIZE * MAJORITY_THRESHOLD"
  proof -
    have ne: "buf \<noteq> []" using len by (auto simp: BUFFER_SIZE_def)
    obtain k where k: "most_common1 (Counter buf) = [(k, count_list buf k)]"
      and mx: "\<forall>k'. count_list buf k' \<le> count_list buf k"
      using most_common1_Counter [OF ne] by blast
    have w6: "6 \<le> count_list buf w" using maj by (simp add: majority_iff)
    then have k6: "6 \<le> count_list buf k" using mx order_trans by blast
    have "k = w"
    proof (rule ccontr)
      assume "k \<noteq> w"
      then have "count_list buf k + count_list buf w \<le> length buf" by (rule count_list_two)
      then show False using w6 k6 len by (simp add: BUFFER_SIZE_def)
    qed
    then show ?thesis using unfold [OF p] len k maj by simp
  qed
  have keep: "add_prediction sb (Some p) c now = sb1"
    if p: "p \<noteq> []"
      and no: "\<not> (length buf = BUFFER_SIZE
                 \<and> (\<exists>v \<in> set buf. real (count_list buf v) > real BUFFER_SIZE * MAJORITY_THRESHOLD))"
  proof (cases "length buf = BUFFER_SIZE")
    case False
    then show ?thesis using unfold [OF p] by simp
  next
    case True
    then have ne: "buf \<noteq> []" by (auto simp: BUFFER_SIZE_def)
    obtain k where k: "most_common1 (Counter buf) = [(k, count_list buf k)]" and mem: "k \<in> set buf"
      using most_common1_Counter [OF ne] by blast
    have "\<not> real (count_list buf k) > real BUFFER_SIZE * MAJORITY_THRESHOLD"
      using no True mem by blast
    then show ?thesis using unfold [OF p] True k by simp
  qed
  have none: "add_prediction sb None c now = sb" "add_prediction sb (Some []) c now = sb"
    by (simp_all add: add_prediction_def)
  have nums: "real (6::nat) > real BUFFER_SIZE * MAJORITY_THRESHOLD"
    "\<not> real (5::nat) > real BUFFER_SIZE * MAJORITY_THRESHOLD"
    by (simp_all add: BUFFER_SIZE_def MAJORITY_THRESHOLD_def)
  show ?thesis
    using none nums commit keep unfolding buf_def sb1_def Let_def by blast
qed

theorem add_prediction_majority_witness:
  "''A'' \<noteq> []
   \<and> add_prediction
         (new_builder\<lparr>frame_buffer := [''A'', ''A'', ''B'', ''A'', ''A'', ''C'', ''A'']\<rparr>)
         (Some ''A'') 1 7
       = new_builder\<lparr>current_sentence := [''A''], last_word_time := 7\<rparr>
   \<and> add_prediction
         (new_builder\<lparr>frame_buffer := [''A'', ''A'', ''B'', ''A'', ''D'', ''C'', ''A'']\<rparr>)
         (Some ''A'') 1 7
       = new_builder\<lparr>frame_buffer := [''A'', ''A'', ''B'', ''A'', ''D'', ''C'', ''A'', ''A'']\<rparr>
   \<and> add_prediction (new_builder\<lparr>frame_buffer := [''A'', ''A'']\<rparr>) (Some ''A'') 1 7
       = new_builder\<lparr>frame_buffer := [''A'', ''A'', ''A'']\<rparr>"
  using add_prediction_majority
          [of "new_builder\<lparr>frame_buffer := [''A'', ''A'', ''B'', ''A'', ''A'', ''C'', ''A'']\<rparr>"
              1 7 "''A''" "''A''"]
        add_prediction_majority
          [of "new_builder\<lparr>frame_buffer := [''A'', ''A'', ''B'', ''A'', ''D'', ''C'', ''A'']\<rparr>"
              1 7 "''A''" "''A''"]
        add_prediction_majority
          [of "new_builder\<lparr>frame_buffer := [''A'', ''A'']\<rparr>" 1 7 "''A''" "''A''"]
  by (simp add: new_builder_def deque_append_def BUFFER_SIZE_def MAJORITY_THRESHOLD_def
        commit_word_def Let_def)

subsection \<open>Filter calls and the filter bank of a new extractor\<close>

lemma smoothing_factor_pos:
  "0 < t_e \<Longrightarrow> 0 \<le> cutoff \<Longrightarrow>
   smoothing_factor t_e cutoff = Inr (2 * pi * cutoff * t_e / (2 * pi * cutoff * t_e + 1))"
proof -
  assume a: "0 < t_e" "0 \<le> cutoff"
  have "0 \<le> 2 * pi * cutoff * t_e" using a by simp
  then have "2 * pi * cutoff * t_e + 1 \<noteq> 0" by linarith
  then show ?thesis by (simp add: smoothing_factor_def Let_def)
qed

lemma filter_call_first: "filter_call (new_filter t v) t v = Inr (v, new_filter t v)"
  by (simp add: filter_call_def new_filter_def)

lemma filter_call_still:
  assumes "t0 < t"
  shows "filter_call (new_filter t0 (Num v)) t (Num v)
           = Inr (Num v, (new_filter t0 (Num v))\<lparr>x_prev := Num v, dx_prev := 0, t_prev := t\<rparr>)"
proof -
  have te: "0 < t - t0" using assms by simp
  have nle: "\<not> t - t0 \<le> 0" using assms by simp
  have s1: "smoothing_factor (t - t0) 1 = Inr (2 * pi * 1 * (t - t0) / (2 * pi * 1 * (t - t0) + 1))"
    by (rule smoothing_factor_pos [OF te]) simp
  have s2: "smoothing_factor (t - t0) (3 / 2)
              = Inr (2 * pi * (3 / 2) * (t - t0) / (2 * pi * (3 / 2) * (t - t0) + 1))"
    by (rule smoothing_factor_pos [OF te]) simp
  have sm: "exponential_smoothing a v v = v" for a
    by (simp add: exponential_smoothing_def algebra_simps)
  have sm0: "exponential_smoothing a 0 0 = 0" for a
    by (simp add: exponential_smoothing_def)
  show ?thesis
    using nle
    by (simp add: filter_call_def new_filter_def FILTER_MIN_CUTOFF_def FILTER_BETA_def Let_def
          s1 [simplified] s2 [simplified] sm sm0)
qed

lemma filter_call_none:
  assumes "t0 < t"
  shows "filter_call (new_filter t0 (Num v)) t PyNone = Inl TypeError"
proof -
  have te: "0 < t - t0" using assms by simp
  have nle: "\<not> t - t0 \<le> 0" using assms by simp
  have s1: "smoothing_factor (t - t0) 1 = Inr (2 * pi * 1 * (t - t0) / (2 * pi * 1 * (t - t0) + 1))"
    by (rule smoothing_factor_pos [OF te]) simp
  show ?thesis
    using nle by (simp add: filter_call_def new_filter_def s1 [simplified])
qed

lemma apply_filter_fresh:
  "fs idx = None \<Longrightarrow> apply_filter fs idx t v = (Inr v, fs(idx \<mapsto> new_filter t v))"
  by (simp add: apply_filter_def get_filter_def filter_call_first)

lemma smooth_loop_fresh:
  assumes "\<forall>k \<ge> 3 * i. fs k = None"
  shows "\<exists>fs'. smooth_loop fs t i (map LmDict ds) acc =
           (None,
            acc @ map (\<lambda>d. [dict_get d ''x'', dict_get d ''y'', dict_get0 d ''z'']) ds, fs')
         \<and> (\<forall>k < 3 * i. fs' k = fs k)
         \<and> (\<forall>j < length ds.
               fs' (3 * (i + j)) = Some (new_filter t (dict_get (ds ! j) ''x''))
             \<and> fs' (3 * (i + j) + 1) = Some (new_filter t (dict_get (ds ! j) ''y''))
             \<and> fs' (3 * (i + j) + 2) = Some (new_filter t (dict_get0 (ds ! j) ''z'')))"
  using assms
proof (induction ds arbitrary: fs i acc)
  case Nil
  then show ?case by simp
next
  case (Cons d ds)
  let ?x = "dict_get d ''x''" and ?y = "dict_get d ''y''" and ?z = "dict_get0 d ''z''"
  define fs3 where
    "fs3 = fs(i * 3 \<mapsto> new_filter t ?x, i * 3 + 1 \<mapsto> new_filter t ?y, i * 3 + 2 \<mapsto> new_filter t ?z)"
  have n0: "fs (i * 3) = None" and n1: "fs (i * 3 + 1) = None" and n2: "fs (i * 3 + 2) = None"
    using Cons.prems by (simp_all add: mult.commute)
  have step: "smooth_loop fs t i (map LmDict (d # ds)) acc =
                smooth_loop fs3 t (i + 1) (map LmDict ds) (acc @ [[?x, ?y, ?z]])"
    using n0 n1 n2 by (simp add: apply_filter_fresh fs3_def Let_def)
  have fresh: "\<forall>k \<ge> 3 * (i + 1). fs3 k = None"
    using Cons.prems by (auto simp: fs3_def)
  from Cons.IH [OF fresh, of "acc @ [[?x, ?y, ?z]]"]
  obtain fs' where r: "smooth_loop fs3 t (i + 1) (map LmDict ds) (acc @ [[?x, ?y, ?z]]) =
      (None, (acc @ [[?x, ?y, ?z]]) @
         map (\<lambda>d. [dict_get d ''x'', dict_get d ''y'', dict_get0 d ''z'']) ds, fs')"
    and low: "\<forall>k < 3 * (i + 1). fs' k = fs3 k"
    and new: "\<forall>j < length ds.
               fs' (3 * (i + 1 + j)) = Some (new_filter t (dict_get (ds ! j) ''x''))
             \<and> fs' (3 * (i + 1 + j) + 1) = Some (new_filter t (dict_get (ds ! j) ''y''))
             \<and> fs' (3 * (i + 1 + j) + 2) = Some (new_filter t (dict_get0 (ds ! j) ''z''))"
    by blast
  have a: "\<forall>k < 3 * i. fs' k = fs k"
    using low by (auto simp: fs3_def)
  have b: "fs' (3 * (i + j)) = Some (new_filter t (dict_get ((d # ds) ! j) ''x''))
         \<and> fs' (3 * (i + j) + 1) = Some (new_filter t (dict_get ((d # ds) ! j) ''y''))
         \<and> fs' (3 * (i + j) + 2) = Some (new_filter t (dict_get0 ((d # ds) ! j) ''z''))"
    if "j < length (d # ds)" for j
  proof (cases j)
    case 0
    have "fs' (3 * i) = fs3 (3 * i)" "fs' (3 * i + 1) = fs3 (3 * i + 1)"
      "fs' (3 * i + 2) = fs3 (3 * i + 2)"
      using low by simp_all
    then show ?thesis using 0 by (simp add: fs3_def mult.commute)
  next
    case (Suc j')
    then have "j' < length ds" using that by simp
    then show ?thesis using new Suc by simp
  qed
  show ?case
    using step r a b by simp
qed

lemma smooth_landmarks_fresh:
  "\<exists>fs'. smooth_landmarks new_extractor t (map LmDict ds) =
           (Inr (map (\<lambda>d. [dict_get d ''x'', dict_get d ''y'', dict_get0 d ''z'']) ds), fs')
         \<and> (\<forall>j < length ds.
               fs' (3 * j) = Some (new_filter t (dict_get (ds ! j) ''x''))
             \<and> fs' (3 * j + 1) = Some (new_filter t (dict_get (ds ! j) ''y''))
             \<and> fs' (3 * j + 2) = Some (new_filter t (dict_get0 (ds ! j) ''z'')))"
proof -
  have "\<forall>k \<ge> 3 * 0. new_extractor k = None" by (simp add: new_extractor_def)
  from smooth_loop_fresh [OF this, of t ds "[]"]
  show ?thesis by (auto simp add: smooth_landmarks_def)
qed

lemma to_array_zero:
  "to_array (replicate n [Num 0, Num 0, Num 0]) = Some (replicate n (0, 0, 0))"
  by (induction n) auto

lemma process_zero_frame:
  assumes "21 \<le> n"
  shows "\<exists>fs'. process new_extractor t now (replicate n zero_landmark) =
            (Inr (Some (extract_features (replicate n (0, 0, 0)) now)), fs')
          \<and> fs' \<noteq> new_extractor"
proof -
  let ?d = "[''x'' \<mapsto> Num 0, ''y'' \<mapsto> Num 0, ''z'' \<mapsto> Num 0]"
  have fr: "replicate n zero_landmark = map LmDict (replicate n ?d)"
    by (simp add: zero_landmark_def)
  have ne: "replicate n ?d \<noteq> []" using assms by auto
  from smooth_landmarks_fresh [of t "replicate n ?d"] ne
  obtain fs' where r: "smooth_landmarks new_extractor t (map LmDict (replicate n ?d)) =
      (Inr (map (\<lambda>d. [dict_get d ''x'', dict_get d ''y'', dict_get0 d ''z'']) (replicate n ?d)), fs')"
    and new: "fs' 0 \<noteq> None"
    by force
  have rows: "map (\<lambda>d. [dict_get d ''x'', dict_get d ''y'', dict_get0 d ''z'']) (replicate n ?d)
              = replicate n [Num 0, Num 0, Num 0]"
    by (simp add: dict_get_def dict_get0_def)
  have "fs' \<noteq> new_extractor" using new by (auto simp: new_extractor_def)
  moreover have "process new_extractor t now (replicate n zero_landmark) =
            (Inr (Some (extract_features (replicate n (0, 0, 0)) now)), fs')"
    using assms ne unfolding process_def fr r rows by (simp add: to_array_zero)
  ultimately show ?thesis by blast
qed

lemma apply_filter_still:
  assumes "fs idx = Some (new_filter t0 (Num v))" and "t0 < t"
  shows "apply_filter fs idx t (Num v)
           = (Inr (Num v),
              fs(idx \<mapsto> (new_filter t0 (Num v))\<lparr>x_prev := Num v, dx_prev := 0, t_prev := t\<rparr>))"
  using assms by (simp add: apply_filter_def get_filter_def filter_call_still)

lemma apply_filter_none:
  assumes "fs idx = Some (new_filter t0 (Num v))" and "t0 < t"
  shows "apply_filter fs idx t PyNone = (Inl TypeError, fs)"
  using assms by (simp add: apply_filter_def get_filter_def filter_call_none)

lemma raw_loop_dicts:
  "raw_loop (map LmDict ds) acc
     = Inr (acc @ map (\<lambda>d. [dict_get0 d ''x'', dict_get0 d ''y'', dict_get0 d ''z'']) ds)"
  by (induction ds arbitrary: acc) simp_all

subsection \<open>The frame at the origin\<close>

lemmas sign_defs = sign_0_def sign_1_def sign_2_def sign_3_def sign_4_def sign_5_def sign_A_def sign_B_def sign_C_def sign_D_def sign_E_def sign_F_def sign_G_def sign_H_def sign_I_def sign_K_def sign_L_def sign_M_def sign_N_def sign_O_def sign_P_def sign_Q_def sign_R_def sign_S_def sign_T_def sign_U_def sign_V_def sign_W_def sign_X_def sign_Y_def sign_Z_START_def sign_I_LOVE_YOU_def sign_ZERO_def sign_ONE_def sign_TWO_def sign_THREE_def sign_FOUR_def sign_FIVE_def sign_SIX_def sign_SEVEN_def sign_EIGHT_def sign_NINE_def sign_HELLO_def sign_YES_def sign_NO_def sign_OK_def sign_CALL_def sign_STOP_def sign_HELP_def sign_THANK_YOU_def sign_PLEASE_def sign_SORRY_def sign_GOOD_def sign_BAD_def sign_WATER_def sign_FOOD_def sign_DRINK_def sign_MONEY_def sign_HOME_def sign_WORK_def sign_FRIEND_def sign_LOVE_def sign_HAPPY_def sign_SAD_def sign_HUNGRY_def sign_TIRED_def sign_BATHROOM_def sign_PHONE_def sign_WAIT_def sign_COME_def sign_GO_def sign_MORE_def sign_FINISHED_def 

lemma zero_angle: "calculate_angle (0, 0, 0) (0, 0, 0) = 90"
  by (simp add: calculate_angle_def normalize_vector_def vnorm_def vdot_def clip_def degrees_def)

lemma zero_finger: "analyze_finger (0, 0, 0) (0, 0, 0) (0, 0, 0) (0, 0, 0) (0, 0, 0) = (FOLDED, 180)"
  by (simp add: analyze_finger_def get_vector_def vsub_def zero_angle Let_def)

lemma zero_thumb: "thumb_state_of (0, 0, 0) (0, 0, 0) (0, 0, 0) (0, 0, 0) (0, 0, 0) = FOLDED"
  by (simp add: thumb_state_of_def get_vector_def vsub_def zero_angle Let_def)

lemma zero_hand_n:
  assumes "21 \<le> n"
  shows "fingers (extract_features (replicate n (0, 0, 0)) now) f = FOLDED"
    and "palm_orientation (extract_features (replicate n (0, 0, 0)) now) = RIGHT"
    and "raw_landmarks (extract_features (replicate n (0, 0, 0)) now) = replicate n (0, 0, 0)"
  using assms
  by (cases f; simp add: extract_features_def zero_finger zero_thumb get_vector_def vsub_def vcross_def
        normalize_vector_def vnorm_def vdot_def orientation_of_normal_def Let_def)+

lemma zero_predict_n:
  assumes "21 \<le> n"
  shows "predict_hand get_definitions (extract_features (replicate n (0, 0, 0)) now) = (Some ''E'', 1)"
  using assms
  by (simp add: predict_hand_def get_definitions_def sign_defs calculate_match_score_def
        match_counters_def special_check_passed_def zero_hand_n CONFIDENCE_THRESHOLD_def
        vsub_def vnorm_def vdot_def Let_def)

subsection \<open>Rejected frames\<close>

text \<open>
  C1 (as the code has it). For every frame with fewer than 21 landmarks, \<^verbatim>\<open>process\<close>
  returns \<^verbatim>\<open>None\<close> and \<^verbatim>\<open>predict\<close> returns \<^verbatim>\<open>(None, 0.0)\<close>, both leaving the filter
  bank as it was, and the handler of the landmarks message leaves the filter bank and the
  sentence builder of the session as they were, whatever they held before.
\<close>

theorem short_frame_rejected:
  "length raw < 21 \<longrightarrow>
     process fs t now raw = (Inr None, fs)
     \<and> predict fs t now raw = (Inr (None, 0), fs)
     \<and> snd (landmarks_message fs sb t now now' raw) = (fs, sb)"
  by (simp add: process_def predict_def landmarks_message_def)

theorem short_frame_rejected_witness:
  "length (replicate 20 zero_landmark) < 21
   \<and> process new_extractor 0 0 (replicate 20 zero_landmark) = (Inr None, new_extractor)
   \<and> predict new_extractor 0 0 (replicate 20 zero_landmark) = (Inr (None, 0), new_extractor)
   \<and> snd (landmarks_message new_extractor new_builder 0 0 0 (replicate 20 zero_landmark))
       = (new_extractor, new_builder)"
  using short_frame_rejected
          [of "replicate 20 zero_landmark" new_extractor 0 0 new_builder 0]
  by simp

text \<open>
  C1 fails at a frame whose landmark count is not 21: on a new extractor, the frame of 22
  landmarks at the origin is processed into a hand state, filters are created, and
  \<^verbatim>\<open>predict\<close> returns the label E with confidence 1.
\<close>

theorem long_frame_processed:
  "length (replicate 22 zero_landmark) \<noteq> 21
   \<and> fst (process new_extractor 0 0 (replicate 22 zero_landmark))
       = Inr (Some (extract_features (replicate 22 (0, 0, 0)) 0))
   \<and> snd (process new_extractor 0 0 (replicate 22 zero_landmark)) \<noteq> new_extractor
   \<and> fst (predict new_extractor 0 0 (replicate 22 zero_landmark)) = Inr (Some ''E'', 1)
   \<and> snd (predict new_extractor 0 0 (replicate 22 zero_landmark)) \<noteq> new_extractor"
proof -
  obtain fs' where p: "process new_extractor 0 0 (replicate 22 zero_landmark) =
            (Inr (Some (extract_features (replicate 22 (0, 0, 0)) 0)), fs')"
    and ne: "fs' \<noteq> new_extractor"
    using process_zero_frame [of 22 0 0] by auto
  have z: "predict_hand get_definitions (extract_features (replicate 22 (0, 0, 0)) 0)
             = (Some ''E'', 1)"
    by (rule zero_predict_n) simp
  show ?thesis using p ne z by (simp add: predict_def)
qed

lemma smooth_loop_step_ok:
  assumes "apply_filter fs (i * 3 + 0) t (dict_get d ''x'') = (Inr sx, fs1)"
    and "apply_filter fs1 (i * 3 + 1) t (dict_get d ''y'') = (Inr sy, fs2)"
    and "apply_filter fs2 (i * 3 + 2) t (dict_get0 d ''z'') = (Inr sz, fs3)"
  shows "smooth_loop fs t i (LmDict d # lms) acc
           = smooth_loop fs3 t (i + 1) lms (acc @ [[sx, sy, sz]])"
  using assms by (simp add: Let_def)

lemma smooth_loop_step_fails:
  assumes "apply_filter fs (i * 3 + 0) t (dict_get d ''x'') = (Inl e, fs1)"
  shows "smooth_loop fs t i (LmDict d # lms) acc = (Some e, acc, fs1)"
  using assms by (simp add: Let_def)

subsection \<open>The fallback of smooth_landmarks\<close>

text \<open>
  C2 (the code at a failing input). An extractor has seen one frame of 21 landmarks at time 0.
  At time 1 it receives a frame of 21 landmarks whose second landmark has no \<^verbatim>\<open>x\<close> key, so
  that the filter of channel 3 raises TypeError. The unfiltered coordinates of that frame are
  21 rows; the array that \<^verbatim>\<open>smooth_landmarks\<close> returns has 22 rows: the smoothed row of
  the first landmark, which the \<^verbatim>\<open>try\<close> block had appended, followed by the 21 raw rows.
\<close>

theorem fallback_keeps_smoothed_rows:
  "length missing_x_frame = 21
   \<and> raw_coordinates missing_x_frame
       = Inr ([Num (1 / 2), Num (1 / 2), Num 0] # [Num 0, Num (1 / 2), Num 0]
              # replicate 19 [Num (1 / 2), Num (1 / 2), Num 0])
   \<and> fst (smooth_landmarks
            (snd (smooth_landmarks new_extractor 0 (replicate 21 still_landmark))) 1
            missing_x_frame)
       = Inr ([Num (1 / 2), Num (1 / 2), Num 0]
              # [Num (1 / 2), Num (1 / 2), Num 0] # [Num 0, Num (1 / 2), Num 0]
              # replicate 19 [Num (1 / 2), Num (1 / 2), Num 0])"
proof -
  let ?d = "[''x'' \<mapsto> Num (1 / 2), ''y'' \<mapsto> Num (1 / 2), ''z'' \<mapsto> Num 0]"
  let ?e = "[''y'' \<mapsto> Num (1 / 2), ''z'' \<mapsto> Num (0::real)]"
  have fr: "replicate 21 still_landmark = map LmDict (replicate 21 ?d)"
    by (simp add: still_landmark_def)
  have bad: "missing_x_frame = map LmDict (?d # ?e # replicate 19 ?d)"
    by (simp add: missing_x_frame_def still_landmark_def no_x_landmark_def)
  obtain fs1 where r: "smooth_landmarks new_extractor 0 (map LmDict (replicate 21 ?d)) =
      (Inr (map (\<lambda>d. [dict_get d ''x'', dict_get d ''y'', dict_get0 d ''z'']) (replicate 21 ?d)), fs1)"
    and bank: "\<forall>j < length (replicate 21 ?d).
               fs1 (3 * j) = Some (new_filter 0 (dict_get (replicate 21 ?d ! j) ''x''))
             \<and> fs1 (3 * j + 1) = Some (new_filter 0 (dict_get (replicate 21 ?d ! j) ''y''))
             \<and> fs1 (3 * j + 2) = Some (new_filter 0 (dict_get0 (replicate 21 ?d ! j) ''z''))"
    using smooth_landmarks_fresh [of 0 "replicate 21 ?d"] by blast
  have b0: "fs1 0 = Some (new_filter 0 (Num (1 / 2)))"
    and b1: "fs1 1 = Some (new_filter 0 (Num (1 / 2)))"
    and b2: "fs1 2 = Some (new_filter 0 (Num 0))"
    using bank [rule_format, of 0] by (simp_all add: dict_get_def dict_get0_def numeral_2_eq_2)
  have b3: "fs1 3 = Some (new_filter 0 (Num (1 / 2)))"
    using bank [rule_format, of 1] by (simp add: dict_get_def dict_get0_def)
  let ?f = "\<lambda>v. (new_filter 0 (Num v))\<lparr>x_prev := Num v, dx_prev := 0, t_prev := 1\<rparr>"
  define fsa where "fsa = fs1(0 * 3 + 0 \<mapsto> ?f (1 / 2))"
  define fsb where "fsb = fsa(0 * 3 + 1 \<mapsto> ?f (1 / 2))"
  define fsc where "fsc = fsb(0 * 3 + 2 \<mapsto> ?f 0)"
  have vals: "dict_get ?d ''x'' = Num (1 / 2)" "dict_get ?d ''y'' = Num (1 / 2)"
    "dict_get0 ?d ''z'' = Num 0" "dict_get ?e ''x'' = PyNone"
    by (simp_all add: dict_get_def dict_get0_def)
  have p0: "fs1 (0 * 3 + 0) = Some (new_filter 0 (Num (1 / 2)))"
    using b0 by simp
  have p1: "fsa (0 * 3 + 1) = Some (new_filter 0 (Num (1 / 2)))"
    using b1 by (simp add: fsa_def eval_nat_numeral)
  have p2: "fsb (0 * 3 + 2) = Some (new_filter 0 (Num 0))"
    using b2 by (simp add: fsa_def fsb_def eval_nat_numeral)
  have p3: "fsc ((0 + 1) * 3 + 0) = Some (new_filter 0 (Num (1 / 2)))"
    using b3 by (simp add: fsa_def fsb_def fsc_def eval_nat_numeral)
  have a0: "apply_filter fs1 (0 * 3 + 0) 1 (dict_get ?d ''x'') = (Inr (Num (1 / 2)), fsa)"
    unfolding vals fsa_def by (rule apply_filter_still [of fs1 "0 * 3 + 0" 0 "1 / 2" 1, OF p0]) simp
  have a1: "apply_filter fsa (0 * 3 + 1) 1 (dict_get ?d ''y'') = (Inr (Num (1 / 2)), fsb)"
    unfolding vals fsb_def by (rule apply_filter_still [of fsa "0 * 3 + 1" 0 "1 / 2" 1, OF p1]) simp
  have a2: "apply_filter fsb (0 * 3 + 2) 1 (dict_get0 ?d ''z'') = (Inr (Num 0), fsc)"
    unfolding vals fsc_def by (rule apply_filter_still [of fsb "0 * 3 + 2" 0 0 1, OF p2]) simp
  have a3: "apply_filter fsc ((0 + 1) * 3 + 0) 1 (dict_get ?e ''x'') = (Inl TypeError, fsc)"
    unfolding vals by (rule apply_filter_none [of fsc "(0 + 1) * 3 + 0" 0 "1 / 2" 1, OF p3]) simp
  have loop: "smooth_loop fs1 1 0 (map LmDict (?d # ?e # replicate 19 ?d)) []
      = (Some TypeError, [[Num (1 / 2), Num (1 / 2), Num 0]], fsc)"
    unfolding list.map smooth_loop_step_ok [OF a0 a1 a2] smooth_loop_step_fails [OF a3]
    by simp
  have raws: "map (\<lambda>d. [dict_get0 d ''x'', dict_get0 d ''y'', dict_get0 d ''z''])
               (?d # ?e # replicate 19 ?d)
      = [Num (1 / 2), Num (1 / 2), Num 0] # [Num 0, Num (1 / 2), Num 0]
              # replicate 19 [Num (1 / 2), Num (1 / 2), Num 0]"
    by (simp add: dict_get0_def)
  have c1: "length missing_x_frame = 21" by (simp add: missing_x_frame_def)
  have c2: "raw_coordinates missing_x_frame
       = Inr ([Num (1 / 2), Num (1 / 2), Num 0] # [Num 0, Num (1 / 2), Num 0]
              # replicate 19 [Num (1 / 2), Num (1 / 2), Num 0])"
    unfolding raw_coordinates_def bad raw_loop_dicts raws by simp
  have c3: "fst (smooth_landmarks fs1 1 missing_x_frame)
       = Inr ([Num (1 / 2), Num (1 / 2), Num 0]
              # [Num (1 / 2), Num (1 / 2), Num 0] # [Num 0, Num (1 / 2), Num 0]
              # replicate 19 [Num (1 / 2), Num (1 / 2), Num 0])"
    unfolding smooth_landmarks_def bad loop by (simp add: raw_loop_dicts raws del: map_eq_Cons_conv list.map)
  have s: "snd (smooth_landmarks new_extractor 0 (replicate 21 still_landmark)) = fs1"
    unfolding fr r by simp
  show ?thesis using c1 c2 c3 s by simp
qed

subsection \<open>Palm orientation\<close>

text \<open>
  C7 fails on a tie: the normal \<open>(1/3, 2/3, 2/3)\<close> has length 1 and its y and z components
  tie for the largest. Priority to z gives BACKWARD; the code gives DOWN.
\<close>

theorem orientation_tie_goes_to_later_axis:
  "vnorm (1 / 3, 2 / 3, 2 / 3) = 1
   \<and> orientation_by_priority (1 / 3, 2 / 3, 2 / 3) = BACKWARD
   \<and> orientation_of_normal (1 / 3, 2 / 3, 2 / 3) = DOWN"
proof -
  have "vdot (1 / 3, 2 / 3, 2 / 3) (1 / 3, 2 / 3, 2 / 3) = 1"
    by (simp add: vdot_def)
  then have "vnorm (1 / 3, 2 / 3, 2 / 3) = 1" by (simp add: vnorm_def)
  then show ?thesis
    by (simp add: orientation_by_priority_def orientation_of_normal_def)
qed

text \<open>
  C7 (as the code has it). The orientation is on the z axis exactly when \<open>|z|\<close> is strictly
  larger than both \<open>|x|\<close> and \<open>|y|\<close>; otherwise on the y axis exactly when \<open>|y|\<close> is strictly
  larger than \<open>|x|\<close>; otherwise on the x axis. So the chosen axis always has a largest absolute
  component, and a tie for the largest goes to the axis checked later: x before y before z.
  On the chosen axis a negative component gives FORWARD, UP or LEFT, any other BACKWARD,
  DOWN or RIGHT.
\<close>

theorem orientation_strict_cascade:
  "(orientation_of_normal (nx, ny, nz) \<in> {FORWARD, BACKWARD}
      \<longleftrightarrow> \<bar>nz\<bar> > \<bar>nx\<bar> \<and> \<bar>nz\<bar> > \<bar>ny\<bar>)
   \<and> (orientation_of_normal (nx, ny, nz) \<in> {UP, DOWN}
      \<longleftrightarrow> \<bar>ny\<bar> > \<bar>nx\<bar> \<and> \<bar>ny\<bar> \<ge> \<bar>nz\<bar>)
   \<and> (orientation_of_normal (nx, ny, nz) \<in> {LEFT, RIGHT}
      \<longleftrightarrow> \<bar>nx\<bar> \<ge> \<bar>ny\<bar> \<and> \<bar>nx\<bar> \<ge> \<bar>nz\<bar>)
   \<and> (orientation_of_normal (nx, ny, nz) = FORWARD
      \<longleftrightarrow> \<bar>nz\<bar> > \<bar>nx\<bar> \<and> \<bar>nz\<bar> > \<bar>ny\<bar> \<and> nz < 0)
   \<and> (orientation_of_normal (nx, ny, nz) = UP
      \<longleftrightarrow> \<bar>ny\<bar> > \<bar>nx\<bar> \<and> \<bar>ny\<bar> \<ge> \<bar>nz\<bar> \<and> ny < 0)
   \<and> (orientation_of_normal (nx, ny, nz) = LEFT
      \<longleftrightarrow> \<bar>nx\<bar> \<ge> \<bar>ny\<bar> \<and> \<bar>nx\<bar> \<ge> \<bar>nz\<bar> \<and> nx < 0)"
  unfolding orientation_of_normal_def Let_def prod.case
  by (intro conjI; simp; linarith?)

subsection \<open>Match score\<close>

lemma finger_checks_counts:
  "finger_checks hs fs (s, n) =
     (s + real (length (filter id
            (map (\<lambda>(finger, required_states). fingers hs finger \<in> set required_states) fs))),
      n + length fs)"
  by (induction fs arbitrary: s n) auto

lemma match_counters_counts:
  "match_counters hs sd =
     (real (length (filter id (applicable_checks hs sd))), length (applicable_checks hs sd))"
  by (simp add: match_counters_def applicable_checks_def finger_checks_counts Let_def
        split: option.splits)

lemma fraction_passed_bounds: "0 \<le> fraction_passed cs \<and> fraction_passed cs \<le> 1"
proof -
  have "length (filter id cs) \<le> length cs" by simp
  then have "real (length (filter id cs)) \<le> real (length cs)" by linarith
  then show ?thesis by (simp add: fraction_passed_def divide_le_eq_1)
qed

text \<open>
  C6. For every hand state and every sign definition, the match score is the number of checks
  of the definition that passed divided by the number of checks of the definition (finger
  checks, orientation check, special check; each passes or fails, nothing in between), and 0
  for a definition without checks. So the score lies between 0 and 1.
\<close>

theorem match_score_fraction:
  "calculate_match_score hs sd = fraction_passed (applicable_checks hs sd)
   \<and> 0 \<le> calculate_match_score hs sd \<and> calculate_match_score hs sd \<le> 1
   \<and> calculate_match_score hs
        (sd\<lparr>def_fingers := None, def_orientation := None, def_special := None\<rparr>) = 0
   \<and> calculate_match_score hs
        (sd\<lparr>def_fingers := Some [], def_orientation := None, def_special := None\<rparr>) = 0"
proof -
  have eq: "calculate_match_score hs d = fraction_passed (applicable_checks hs d)" for d
    by (simp add: calculate_match_score_def match_counters_counts fraction_passed_def)
  show ?thesis
    using fraction_passed_bounds [of "applicable_checks hs sd"]
    by (simp add: eq) (simp add: applicable_checks_def fraction_passed_def)
qed

lemma match_counters_le: "fst (match_counters hs sd) \<le> real (snd (match_counters hs sd))"
proof -
  have "length (filter id (applicable_checks hs sd)) \<le> length (applicable_checks hs sd)"
    by simp
  then show ?thesis by (simp add: match_counters_counts)
qed

lemma unhandled_tag_fails:
  "tag \<notin> {''THUMB_INDEX_TOUCH'', ''THUMB_MIDDLE_TOUCH'', ''ALL_TIPS_TOUCH'', ''THUMB_UNDER_INDEX''}
   \<Longrightarrow> \<not> special_check_passed tag lm"
  by (simp add: special_check_passed_def)

lemma failed_special_counters:
  assumes "def_special sd = Some tag" and "\<not> special_check_passed tag (raw_landmarks hs)"
  shows "match_counters hs sd =
           (fst (match_counters hs (sd\<lparr>def_special := None\<rparr>)),
            snd (match_counters hs (sd\<lparr>def_special := None\<rparr>)) + 1)"
  using assms by (simp add: match_counters_def Let_def split: option.splits)

lemma failed_special_below_one:
  assumes "def_special sd = Some tag" and "\<not> special_check_passed tag (raw_landmarks hs)"
  shows "calculate_match_score hs sd < 1"
proof -
  let ?c = "match_counters hs (sd\<lparr>def_special := None\<rparr>)"
  have "fst ?c \<le> real (snd ?c)" by (rule match_counters_le)
  then have "fst ?c < real (snd ?c + 1)" by simp
  then show ?thesis
    using failed_special_counters [OF assms]
    by (simp add: calculate_match_score_def)
qed

text \<open>
  C9. A special tag other than THUMB_INDEX_TOUCH, THUMB_MIDDLE_TOUCH, ALL_TIPS_TOUCH and
  THUMB_UNDER_INDEX never passes: a definition with such a tag has the check counted in the
  total and not in the hits, and scores below 1 on every hand state. The lexicon entries M
  (THUMB_UNDER_RING), N (THUMB_UNDER_MIDDLE), SIX (THUMB_PINKY_TOUCH) and NO
  (INDEX_MIDDLE_THUMB_SNAP) are such definitions. The keys \<^verbatim>\<open>check\<close> and \<^verbatim>\<open>spread\<close> of a
  definition do not change its score.
\<close>

theorem unhandled_special_tags:
  "(tag \<notin> {''THUMB_INDEX_TOUCH'', ''THUMB_MIDDLE_TOUCH'', ''ALL_TIPS_TOUCH'',
             ''THUMB_UNDER_INDEX''}
      \<longrightarrow> \<not> special_check_passed tag lm
        \<and> (def_special sd = Some tag
             \<longrightarrow> match_counters hs sd =
                   (fst (match_counters hs (sd\<lparr>def_special := None\<rparr>)),
                    snd (match_counters hs (sd\<lparr>def_special := None\<rparr>)) + 1)
               \<and> calculate_match_score hs sd < 1))
   \<and> map_of get_definitions ''M'' = Some sign_M
   \<and> def_special sign_M = Some ''THUMB_UNDER_RING''
   \<and> calculate_match_score hs sign_M < 1
   \<and> map_of get_definitions ''N'' = Some sign_N
   \<and> def_special sign_N = Some ''THUMB_UNDER_MIDDLE''
   \<and> calculate_match_score hs sign_N < 1
   \<and> map_of get_definitions ''SIX'' = Some sign_SIX
   \<and> def_special sign_SIX = Some ''THUMB_PINKY_TOUCH''
   \<and> calculate_match_score hs sign_SIX < 1
   \<and> map_of get_definitions ''NO'' = Some sign_NO
   \<and> def_special sign_NO = Some ''INDEX_MIDDLE_THUMB_SNAP''
   \<and> calculate_match_score hs sign_NO < 1
   \<and> calculate_match_score hs (sd\<lparr>def_check := chk, def_spread := spr\<rparr>)
       = calculate_match_score hs sd"
proof -
  have gen: "\<not> special_check_passed tag lm
        \<and> (def_special sd = Some tag
             \<longrightarrow> match_counters hs sd =
                   (fst (match_counters hs (sd\<lparr>def_special := None\<rparr>)),
                    snd (match_counters hs (sd\<lparr>def_special := None\<rparr>)) + 1)
               \<and> calculate_match_score hs sd < 1)"
    if "tag \<notin> {''THUMB_INDEX_TOUCH'', ''THUMB_MIDDLE_TOUCH'', ''ALL_TIPS_TOUCH'',
             ''THUMB_UNDER_INDEX''}"
    using unhandled_tag_fails [OF that] failed_special_counters failed_special_below_one
    by blast
  have m: "map_of get_definitions ''M'' = Some sign_M"
    by (simp add: get_definitions_def)
  have n: "map_of get_definitions ''N'' = Some sign_N"
    by (simp add: get_definitions_def)
  have six: "map_of get_definitions ''SIX'' = Some sign_SIX"
    by (simp add: get_definitions_def)
  have no: "map_of get_definitions ''NO'' = Some sign_NO"
    by (simp add: get_definitions_def)
  have sm: "def_special sign_M = Some ''THUMB_UNDER_RING''" by (simp add: sign_M_def)
  have sn: "def_special sign_N = Some ''THUMB_UNDER_MIDDLE''" by (simp add: sign_N_def)
  have ssix: "def_special sign_SIX = Some ''THUMB_PINKY_TOUCH''" by (simp add: sign_SIX_def)
  have sno: "def_special sign_NO = Some ''INDEX_MIDDLE_THUMB_SNAP''" by (simp add: sign_NO_def)
  have lm: "calculate_match_score hs sign_M < 1"
    by (rule failed_special_below_one [OF sm]) (simp add: special_check_passed_def)
  have ln: "calculate_match_score hs sign_N < 1"
    by (rule failed_special_below_one [OF sn]) (simp add: special_check_passed_def)
  have lsix: "calculate_match_score hs sign_SIX < 1"
    by (rule failed_special_below_one [OF ssix]) (simp add: special_check_passed_def)
  have lno: "calculate_match_score hs sign_NO < 1"
    by (rule failed_special_below_one [OF sno]) (simp add: special_check_passed_def)
  have ign: "calculate_match_score hs (sd\<lparr>def_check := chk, def_spread := spr\<rparr>)
       = calculate_match_score hs sd"
    by (simp add: calculate_match_score_def match_counters_def)
  show ?thesis
    using gen m n six no sm sn ssix sno lm ln lsix lno ign by blast
qed

theorem unhandled_special_tags_witness:
  "''THUMB_UNDER_RING'' \<notin> {''THUMB_INDEX_TOUCH'', ''THUMB_MIDDLE_TOUCH'', ''ALL_TIPS_TOUCH'',
             ''THUMB_UNDER_INDEX''}
   \<and> def_special sign_M = Some ''THUMB_UNDER_RING''
   \<and> \<not> special_check_passed ''THUMB_UNDER_RING'' (replicate 21 (0, 0, 0))
   \<and> match_counters
         \<lparr>fingers = (\<lambda>f. FOLDED), finger_angles = (\<lambda>f. 0), palm_orientation = UP,
          thumb_position = ''UNKNOWN'', raw_landmarks = replicate 21 (0, 0, 0), timestamp = 0\<rparr> sign_M = (5, 6)
   \<and> calculate_match_score
         \<lparr>fingers = (\<lambda>f. FOLDED), finger_angles = (\<lambda>f. 0), palm_orientation = UP,
          thumb_position = ''UNKNOWN'', raw_landmarks = replicate 21 (0, 0, 0), timestamp = 0\<rparr> sign_M = 5 / 6"
  using unhandled_special_tags
          [of "''THUMB_UNDER_RING''" "replicate 21 (0, 0, 0)" sign_M
              "\<lparr>fingers = (\<lambda>f. FOLDED), finger_angles = (\<lambda>f. 0), palm_orientation = UP,
                thumb_position = ''UNKNOWN'', raw_landmarks = replicate 21 (0, 0, 0), timestamp = 0\<rparr>"
              None None]
  by (simp add: sign_M_def calculate_match_score_def match_counters_def)

subsection \<open>Best match\<close>

lemma Max_insert_absorb:
  fixes a b :: real
  assumes "finite S" and "a \<le> b"
  shows "Max (insert a (insert b S)) = Max (insert b S)"
proof -
  have "Max (insert a (insert b S)) = max a (Max (insert b S))"
    using assms(1) by simp
  moreover have "b \<le> Max (insert b S)" using assms(1) by simp
  ultimately show ?thesis using assms(2) by (simp add: max_def)
qed

lemma best_loop_max:
  "best_loop hs entries (bm, bc) =
     (let m = Max (insert bc ((\<lambda>e. calculate_match_score hs (snd e)) ` set entries))
      in (if m > bc
          then map_option fst (find (\<lambda>e. calculate_match_score hs (snd e) = m) entries)
          else bm, m))"
proof (induction entries arbitrary: bm bc)
  case Nil
  then show ?case by simp
next
  case (Cons e rest)
  obtain name sd where e: "e = (name, sd)" by (cases e)
  define S where "S = (\<lambda>e. calculate_match_score hs (snd e)) ` set rest"
  define c where "c = calculate_match_score hs sd"
  have fin: "finite S" by (simp add: S_def)
  have img: "(\<lambda>e. calculate_match_score hs (snd e)) ` set (e # rest) = insert c S"
    by (simp add: S_def c_def e)
  show ?case
  proof (cases "c > bc")
    case True
    define m where "m = Max (insert c S)"
    have m_eq: "Max (insert bc (insert c S)) = m"
      unfolding m_def using fin True by (intro Max_insert_absorb) simp_all
    have ge: "c \<le> m" unfolding m_def using fin by simp
    have step: "best_loop hs (e # rest) (bm, bc) = best_loop hs rest (Some name, c)"
      using True by (simp add: e c_def)
    have ih: "best_loop hs rest (Some name, c) =
        (if m > c
         then map_option fst (find (\<lambda>e. calculate_match_score hs (snd e) = m) rest)
         else Some name, m)"
      by (simp add: Cons.IH S_def [symmetric] m_def [symmetric] Let_def)
    have rhs: "(if m > bc
          then map_option fst (find (\<lambda>e. calculate_match_score hs (snd e) = m) (e # rest))
          else bm, m) =
        (if m > c
         then map_option fst (find (\<lambda>e. calculate_match_score hs (snd e) = m) rest)
         else Some name, m)"
    proof (cases "c = m")
      case True
      then show ?thesis using \<open>c > bc\<close> by (simp add: e c_def [symmetric])
    next
      case False
      then have "m > c" using ge by simp
      then show ?thesis using \<open>c > bc\<close> False by (simp add: e c_def [symmetric])
    qed
    show ?thesis
      unfolding Let_def img m_eq step ih rhs ..
  next
    case False
    define m where "m = Max (insert bc S)"
    have m_eq: "Max (insert bc (insert c S)) = m"
    proof -
      have sw: "insert bc (insert c S) = insert c (insert bc S)" by auto
      have "c \<le> bc" using False by simp
      then have "Max (insert c (insert bc S)) = Max (insert bc S)"
        using fin by (rule Max_insert_absorb [rotated])
      then show ?thesis unfolding m_def sw .
    qed
    have step: "best_loop hs (e # rest) (bm, bc) = best_loop hs rest (bm, bc)"
      using False by (simp add: e c_def)
    have ih: "best_loop hs rest (bm, bc) =
        (if m > bc
         then map_option fst (find (\<lambda>e. calculate_match_score hs (snd e) = m) rest)
         else bm, m)"
      by (simp add: Cons.IH S_def [symmetric] m_def [symmetric] Let_def)
    have rhs: "(if m > bc
          then map_option fst (find (\<lambda>e. calculate_match_score hs (snd e) = m) (e # rest))
          else bm, m) =
        (if m > bc
         then map_option fst (find (\<lambda>e. calculate_match_score hs (snd e) = m) rest)
         else bm, m)"
      using False by (auto simp add: e c_def [symmetric])
    show ?thesis
      unfolding Let_def img m_eq step ih rhs ..
  qed
qed

lemma best_score_attained:
  fixes f :: "'a \<Rightarrow> real"
  assumes "0 < Max (insert 0 (f ` set xs))"
  shows "find (\<lambda>e. f e = Max (insert 0 (f ` set xs))) xs \<noteq> None"
proof -
  have "Max (insert 0 (f ` set xs)) \<in> insert 0 (f ` set xs)"
    by (rule Max_in) simp_all
  then have "Max (insert 0 (f ` set xs)) \<in> f ` set xs" using assms by auto
  then show ?thesis by (auto simp: find_None_iff)
qed

text \<open>
  C5. For every extracted hand state, \<^verbatim>\<open>predict\<close> scores every lexicon entry. The best
  confidence is the largest score (0 when no score is above 0), and the best match is the
  first entry, in the order of the lexicon, whose score is that maximum. The label is returned
  exactly when the best confidence is at least the threshold 0.75; otherwise the result is
  \<^verbatim>\<open>None\<close> with the best confidence.
\<close>

theorem predict_best_match:
  "predict_hand lexicon hs =
     (let m = Max (insert 0 ((\<lambda>e. calculate_match_score hs (snd e)) ` set lexicon))
      in if m \<ge> CONFIDENCE_THRESHOLD
         then (map_option fst (find (\<lambda>e. calculate_match_score hs (snd e) = m) lexicon), m)
         else (None, m))
   \<and> (fst (predict_hand lexicon hs) \<noteq> None
        \<longleftrightarrow> snd (predict_hand lexicon hs) \<ge> CONFIDENCE_THRESHOLD)
   \<and> (process fs t now raw = (Inr (Some hs), fs')
        \<longrightarrow> predict fs t now raw = (Inr (predict_hand get_definitions hs), fs'))"
proof -
  define m where "m = Max (insert 0 ((\<lambda>e. calculate_match_score hs (snd e)) ` set lexicon))"
  have eq: "predict_hand lexicon hs =
     (if m \<ge> CONFIDENCE_THRESHOLD
      then (map_option fst (find (\<lambda>e. calculate_match_score hs (snd e) = m) lexicon), m)
      else (None, m))"
    by (simp add: predict_hand_def best_loop_max Let_def CONFIDENCE_THRESHOLD_def m_def)
  have some: "find (\<lambda>e. calculate_match_score hs (snd e) = m) lexicon \<noteq> None"
    if "m \<ge> CONFIDENCE_THRESHOLD"
  proof -
    have "0 < m" using that by (simp add: CONFIDENCE_THRESHOLD_def)
    then show ?thesis unfolding m_def by (rule best_score_attained)
  qed
  have iff: "fst (predict_hand lexicon hs) \<noteq> None
        \<longleftrightarrow> snd (predict_hand lexicon hs) \<ge> CONFIDENCE_THRESHOLD"
    using some by (auto simp add: eq)
  have pr: "process fs t now raw = (Inr (Some hs), fs')
        \<longrightarrow> predict fs t now raw = (Inr (predict_hand get_definitions hs), fs')"
    by (simp add: predict_def)
  show ?thesis using eq iff pr unfolding m_def Let_def by blast
qed

theorem predict_best_match_witness:
  "process new_extractor 0 0 (replicate 21 zero_landmark)
     = (Inr (Some (extract_features (replicate 21 (0, 0, 0)) 0)),
        snd (process new_extractor 0 0 (replicate 21 zero_landmark)))
   \<and> predict new_extractor 0 0 (replicate 21 zero_landmark)
     = (Inr (Some ''E'', 1), snd (process new_extractor 0 0 (replicate 21 zero_landmark)))"
proof -
  obtain fs' where p: "process new_extractor 0 0 (replicate 21 zero_landmark) =
            (Inr (Some (extract_features (replicate 21 (0, 0, 0)) 0)), fs')"
    using process_zero_frame [of 21 0 0] by auto
  have z: "predict_hand get_definitions (extract_features (replicate 21 (0, 0, 0)) 0)
             = (Some ''E'', 1)"
    by (rule zero_predict_n) simp
  show ?thesis
    using predict_best_match
            [of get_definitions "extract_features (replicate 21 (0, 0, 0)) 0" new_extractor 0 0
                "replicate 21 zero_landmark" fs']
          p z
    by simp
qed

end
